theory Spec2Isabelle
  imports Complex_Main
begin

section \<open>Common values\<close>

text \<open>
  The Python exceptions that the modelled handlers of \<^verbatim>\<open>toggle.py\<close> can raise
  themselves: a list or \<^verbatim>\<open>iloc\<close> index out of range, \<^verbatim>\<open>set.remove\<close> of
  an absent element, and \<^verbatim>\<open>max\<close> of an empty sequence or a rejected argument
  (\<^verbatim>\<open>ValueError\<close>). \<open>RenderError\<close> stands for an exception raised inside
  matplotlib while it draws.
\<close>

datatype py_error = IndexError | KeyError | ValueError | RenderError

text \<open>
  A cell of a pandas data frame: a missing value (\<^verbatim>\<open>NaN\<close>/\<^verbatim>\<open>None\<close>), a
  number, or text (a cell of an \<^verbatim>\<open>object\<close> column). Python floats are modelled
  by reals; the handlers modelled here only compare and copy them. A row gives
  each column name its cell; the attribute names that reach the handlers come from
  drop-downs filled with the frame's own columns, so a column is always present.
\<close>

datatype cell = Null | Num real | Str string

type_synonym row = "string \<Rightarrow> cell"

section \<open>Tooltip placement (the three \<^verbatim>\<open>on_hover\<close> handlers)\<close>

text \<open>
  \<^verbatim>\<open>BubbleChart.on_hover\<close> (lines 303-330), \<^verbatim>\<open>BrushingChart.on_hover\<close>
  (lines 828-855) and \<^verbatim>\<open>MapChart.on_hover\<close> (lines 1108-1135) hold the same
  statements, word for word. Qt coordinates and sizes are integers. The two
  \<^verbatim>\<open>if\<close> pairs are sequential, the second pair reading the offset the first
  pair left; the result is the argument of \<^verbatim>\<open>self.tooltip.move\<close>, the
  top-left corner of the tooltip in the widget's coordinates.
\<close>

definition flip_offset :: "int \<Rightarrow> int \<Rightarrow> int \<Rightarrow> int" where
  "flip_offset mouse tooltip_size window_size =
     (let offset = 20;
          offset = (if mouse + offset + tooltip_size > window_size
                    then - tooltip_size - 20 else offset);
          offset = (if mouse + offset < 0 then 20 else offset)
      in offset)"

definition tooltip_move :: "int \<Rightarrow> int \<Rightarrow> int \<Rightarrow> int \<Rightarrow> int \<Rightarrow> int \<Rightarrow> int \<times> int" where
  "tooltip_move mouse_x mouse_y tooltip_width tooltip_height window_width window_height =
     (let offset_x = flip_offset mouse_x tooltip_width window_width;
          offset_y = flip_offset mouse_y tooltip_height window_height;
          new_x = mouse_x + offset_x;
          new_y = mouse_y + offset_y
      in (new_x + 5, new_y + 5))"

text \<open>
  The tooltip is a rectangle of the given size whose top-left corner is the
  position moved to; it is inside the window when all four of its edges are.
\<close>

definition tooltip_inside :: "int \<times> int \<Rightarrow> int \<Rightarrow> int \<Rightarrow> int \<Rightarrow> int \<Rightarrow> bool" where
  "tooltip_inside pos tooltip_width tooltip_height window_width window_height =
     (0 \<le> fst pos \<and> fst pos + tooltip_width \<le> window_width \<and>
      0 \<le> snd pos \<and> snd pos + tooltip_height \<le> window_height)"

section \<open>Bubble view: persistent click selection and hover styling\<close>

text \<open>
  The state of \<^verbatim>\<open>BubbleChart\<close> that its mouse handlers read and write:
  the data rows, the persistent per-row arrays \<^verbatim>\<open>self.edgecolors\<close> and
  \<^verbatim>\<open>self.linewidths\<close>, the set \<^verbatim>\<open>self.selected_indices\<close>, the
  styling last handed to the scatter artist (\<^verbatim>\<open>set_edgecolors\<close>,
  \<^verbatim>\<open>set_linewidths\<close>; matplotlib copies what it is given), and the tooltip.
\<close>

record bubble_chart =
  bubble_data :: "row list"
  selected_indices :: "nat set"
  edgecolors :: "string list"
  linewidths :: "real list"
  scatter_edgecolors :: "string list"
  scatter_linewidths :: "real list"
  tooltip_shown :: bool
  tooltip_pos :: "int \<times> int"

text \<open>
  What a handler reads from a mouse event and from the widgets at that moment:
  whether the event is in the chart's axes, the hit list \<^verbatim>\<open>ind["ind"]\<close> of
  \<^verbatim>\<open>self.scatter.contains(event)\<close> (\<^verbatim>\<open>cont\<close> is true exactly when the
  list is not empty), the cursor \<^verbatim>\<open>local_pos\<close> in widget coordinates, and the
  sizes of the tooltip and of the widget's geometry.
\<close>

record mouse_event =
  inaxes :: bool
  contains_ind :: "nat list"
  pos_x :: int
  pos_y :: int
  tip_width :: int
  tip_height :: int
  geometry_width :: int
  geometry_height :: int

text \<open>\<^verbatim>\<open>BubbleChart.__init__\<close>, lines 174-176 and 182-196, on the rows
  left by the \<^verbatim>\<open>dropna\<close> of line 144.\<close>

definition bubble_init :: "row list \<Rightarrow> bubble_chart" where
  "bubble_init df =
     \<lparr>bubble_data = df,
      selected_indices = {},
      edgecolors = replicate (length df) ''white'',
      linewidths = replicate (length df) 0.5,
      scatter_edgecolors = replicate (length df) ''white'',
      scatter_linewidths = replicate (length df) 0.5,
      tooltip_shown = False,
      tooltip_pos = (50, 50)\<rparr>"

text \<open>\<^verbatim>\<open>BubbleChart.update_data\<close> (a button press): the scatter is drawn
  again from the persistent arrays (lines 218-226).\<close>

definition update_data :: "bubble_chart \<Rightarrow> bubble_chart" where
  "update_data s =
     s\<lparr>scatter_edgecolors := edgecolors s, scatter_linewidths := linewidths s\<rparr>"

text \<open>\<^verbatim>\<open>BubbleChart.on_hover\<close>, lines 271-346. Reading or writing a list
  at an index out of range raises \<^verbatim>\<open>IndexError\<close>, as does \<^verbatim>\<open>iloc\<close>.\<close>

definition on_hover :: "bubble_chart \<Rightarrow> mouse_event \<Rightarrow> py_error + bubble_chart" where
  "on_hover s event =
     (if \<not> inaxes event then Inr (s\<lparr>tooltip_shown := False\<rparr>)
      else case contains_ind event of
        hovered_index # _ \<Rightarrow>
          if \<not> hovered_index < length (bubble_data s) then Inl IndexError
          else
            let s = s\<lparr>tooltip_shown := True,
                      tooltip_pos := tooltip_move (pos_x event) (pos_y event)
                        (tip_width event) (tip_height event)
                        (geometry_width event) (geometry_height event)\<rparr>;
                hover_edgecolors = edgecolors s;
                hover_linewidths = linewidths s
            in if \<not> hovered_index < length hover_edgecolors then Inl IndexError
               else if hover_edgecolors ! hovered_index \<noteq> ''red'' then
                 (if \<not> hovered_index < length hover_linewidths then Inl IndexError
                  else Inr (s\<lparr>scatter_edgecolors := hover_edgecolors[hovered_index := ''black''],
                              scatter_linewidths := hover_linewidths[hovered_index := 2]\<rparr>))
               else Inr (s\<lparr>scatter_edgecolors := hover_edgecolors,
                           scatter_linewidths := hover_linewidths\<rparr>)
      | [] \<Rightarrow>
          Inr (s\<lparr>tooltip_shown := False,
                 scatter_edgecolors := edgecolors s,
                 scatter_linewidths := linewidths s\<rparr>))"

text \<open>\<^verbatim>\<open>BubbleChart.on_click\<close>, lines 348-368. \<^verbatim>\<open>set.remove\<close> of an
  element that is not in the set raises \<^verbatim>\<open>KeyError\<close>.\<close>

definition on_click :: "bubble_chart \<Rightarrow> mouse_event \<Rightarrow> py_error + bubble_chart" where
  "on_click s event =
     (if \<not> inaxes event then Inr s
      else case contains_ind event of
        clicked_index # _ \<Rightarrow>
          if \<not> clicked_index < length (edgecolors s) then Inl IndexError
          else if edgecolors s ! clicked_index = ''red'' then
            (if \<not> clicked_index < length (linewidths s) then Inl IndexError
             else if clicked_index \<notin> selected_indices s then Inl KeyError
             else
               let s = s\<lparr>edgecolors := (edgecolors s)[clicked_index := ''white''],
                         linewidths := (linewidths s)[clicked_index := 0.5],
                         selected_indices := selected_indices s - {clicked_index}\<rparr>
               in Inr (update_data s))
          else
            (if \<not> clicked_index < length (linewidths s) then Inl IndexError
             else
               let s = s\<lparr>edgecolors := (edgecolors s)[clicked_index := ''red''],
                         linewidths := (linewidths s)[clicked_index := 2],
                         selected_indices := insert clicked_index (selected_indices s)\<rparr>
               in Inr (update_data s))
      | [] \<Rightarrow> Inr s)"

text \<open>The events of the bubble view, and a run of the view over a list of
  them from a given state; an exception ends the run.\<close>

datatype bubble_event = Hover mouse_event | Click mouse_event | Button

fun bubble_step :: "bubble_chart \<Rightarrow> bubble_event \<Rightarrow> py_error + bubble_chart" where
  "bubble_step s (Hover e) = on_hover s e"
| "bubble_step s (Click e) = on_click s e"
| "bubble_step s Button = Inr (update_data s)"

fun bubble_run :: "bubble_chart \<Rightarrow> bubble_event list \<Rightarrow> py_error + bubble_chart" where
  "bubble_run s [] = Inr s"
| "bubble_run s (e # es) =
     (case bubble_step s e of Inl err \<Rightarrow> Inl err | Inr s' \<Rightarrow> bubble_run s' es)"

text \<open>
  The shape of every state the view reaches: the three per-row structures agree
  in length with the data, and every row is either unselected (white border of
  width 0.5, not in the set) or selected (red border of width 2, in the set).
\<close>

definition row_ok :: "bubble_chart \<Rightarrow> nat \<Rightarrow> bool" where
  "row_ok s i =
     ((edgecolors s ! i = ''white'' \<and> linewidths s ! i = 0.5 \<and> i \<notin> selected_indices s) \<or>
      (edgecolors s ! i = ''red'' \<and> linewidths s ! i = 2 \<and> i \<in> selected_indices s))"

definition bubble_inv :: "bubble_chart \<Rightarrow> bool" where
  "bubble_inv s =
     (length (edgecolors s) = length (bubble_data s) \<and>
      length (linewidths s) = length (bubble_data s) \<and>
      list_all (row_ok s) [0..<length (bubble_data s)])"

text \<open>The two updates of \<^verbatim>\<open>on_click\<close>, named for the proofs: the
  \<^verbatim>\<open>else\<close> branch (lines 362-364) and the \<^verbatim>\<open>if\<close> branch (lines
  358-360), each followed by the redraw of lines 366-367.\<close>

definition select_row :: "bubble_chart \<Rightarrow> nat \<Rightarrow> bubble_chart" where
  "select_row s i =
     update_data (s\<lparr>edgecolors := (edgecolors s)[i := ''red''],
                    linewidths := (linewidths s)[i := 2],
                    selected_indices := insert i (selected_indices s)\<rparr>)"

definition deselect_row :: "bubble_chart \<Rightarrow> nat \<Rightarrow> bubble_chart" where
  "deselect_row s i =
     update_data (s\<lparr>edgecolors := (edgecolors s)[i := ''white''],
                    linewidths := (linewidths s)[i := 0.5],
                    selected_indices := selected_indices s - {i}\<rparr>)"

section \<open>Brushing view: the \<^verbatim>\<open>Brush\<close> class and linked selection\<close>

text \<open>Colours are RGBA tuples; \<^verbatim>\<open>gray\<close> is the module constant of line 451.\<close>

type_synonym color = "real \<times> real \<times> real \<times> real"

definition gray :: color where
  "gray = (0.7, 0.7, 0.7, 1.0)"

text \<open>
  A method that assigns to fields and then raises leaves the assignments in
  place. The outcome of such a method is the object as the call left it,
  together with the exception if one was raised. The handlers run in the event
  loop of the GUI, so the next event meets the fields as a raising call left
  them.
\<close>

type_synonym 'a outcome = "'a \<times> py_error option"

text \<open>
  The fields of a \<^verbatim>\<open>Brush\<close> that its methods read and write. The field
  \<^verbatim>\<open>selected\<close> holds the index labels of the data frame
  \<^verbatim>\<open>self.selected\<close> (after \<^verbatim>\<open>reset_index(drop=True)\<close> a label is the row's
  position); it is the empty list at construction. The axes, the canvas and the
  scatter artist are not modelled as objects; what drawing on them can raise is
  modelled by \<open>scatter\<close> below.
\<close>

record brush =
  data :: "row list"
  selected :: "nat list"
  default_colors :: "color list"
  colors :: "color list"
  sizes :: "real list"

text \<open>\<^verbatim>\<open>Brush.__init__\<close>, lines 453-461.\<close>

definition Brush_init :: "row list \<Rightarrow> color list \<Rightarrow> real list \<Rightarrow> brush" where
  "Brush_init df default_cs size_scaled =
     \<lparr>data = df, selected = [], default_colors = default_cs,
      colors = default_cs, sizes = size_scaled\<rparr>"

text \<open>
  \<^verbatim>\<open>Brush.update_colors\<close>, lines 463-467. The comprehension reads
  \<^verbatim>\<open>self.default_colors[i]\<close> only for an \<open>i\<close> that is selected; that read
  raises \<^verbatim>\<open>IndexError\<close> when \<open>i\<close> is past the end of the list, before
  \<^verbatim>\<open>self.colors\<close> is assigned.
\<close>

definition update_colors :: "brush \<Rightarrow> nat list \<Rightarrow> brush outcome" where
  "update_colors b sel =
     (if length sel = 0 then (b\<lparr>colors := default_colors b\<rparr>, None)
      else if list_ex (\<lambda>i. i \<in> set sel \<and> \<not> i < length (default_colors b))
                [0..<length (data b)]
      then (b, Some IndexError)
      else (b\<lparr>colors :=
                map (\<lambda>i. if i \<notin> set sel then gray else default_colors b ! i)
                  [0..<length (data b)]\<rparr>, None))"

text \<open>
  The pandas operations the callback uses. \<^verbatim>\<open>dropna(subset=...)\<close> keeps the
  rows that have no missing value in the named columns (text is not missing).
  \<^verbatim>\<open>pd.to_numeric(..., errors='coerce')\<close> leaves numbers and missing values
  as they are and turns text into the number it reads as, or into
  \<^verbatim>\<open>NaN\<close> when it reads as none; how pandas reads text as a number is
  pandas' own code, so the reading is a parameter here.
  \<^verbatim>\<open>between(left, right, inclusive='both')\<close> is
  \<^verbatim>\<open>(left <= x) & (x <= right)\<close>, false on \<^verbatim>\<open>NaN\<close>; it only ever meets
  a column that \<^verbatim>\<open>to_numeric\<close> has made numeric.
\<close>

definition dropna :: "string list \<Rightarrow> row list \<Rightarrow> row list" where
  "dropna cols df = filter (\<lambda>r. list_all (\<lambda>a. r a \<noteq> Null) cols) df"

definition to_numeric :: "(string \<Rightarrow> real option) \<Rightarrow> cell \<Rightarrow> cell" where
  "to_numeric parse c =
     (case c of
        Null \<Rightarrow> Null
      | Num v \<Rightarrow> Num v
      | Str t \<Rightarrow> (case parse t of None \<Rightarrow> Null | Some v \<Rightarrow> Num v))"

definition coerce_column :: "(string \<Rightarrow> real option) \<Rightarrow> string \<Rightarrow> row list \<Rightarrow> row list" where
  "coerce_column parse attr df = map (\<lambda>r. r(attr := to_numeric parse (r attr))) df"

definition between :: "cell \<Rightarrow> real \<Rightarrow> real \<Rightarrow> bool" where
  "between c left right = (case c of Num v \<Rightarrow> left \<le> v \<and> v \<le> right | _ \<Rightarrow> False)"

text \<open>
  Drawing: \<^verbatim>\<open>ax.scatter(x, y, c=..., s=...)\<close> followed by
  \<^verbatim>\<open>canvas.draw()\<close> (lines 484-494, 770-771, 781-782). matplotlib's
  \<^verbatim>\<open>scatter\<close> checks its arguments against the number \<open>n\<close> of points and
  raises \<^verbatim>\<open>ValueError\<close> when the sizes are neither one value nor \<open>n\<close>
  values, or when the list of RGBA colours has neither no, one nor \<open>n\<close>
  entries (a list of \<open>n / 4\<close> RGBA tuples is taken for \<open>n\<close> values to be
  colour-mapped and passes). Only the lengths are read. Whether matplotlib then
  renders the two columns on the axes it has (axes that were set up for text
  take numbers badly) is matplotlib's own code: the parameter \<open>draws\<close> says
  whether it does, and \<open>RenderError\<close> stands for what it raises when not.
\<close>

definition scatter_args_ok :: "nat \<Rightarrow> nat \<Rightarrow> nat \<Rightarrow> bool" where
  "scatter_args_ok n n_colors n_sizes =
     ((n_sizes = 1 \<or> n_sizes = n) \<and>
      (n_colors = 0 \<or> n_colors = 1 \<or> n_colors = n \<or> 4 * n_colors = n))"

definition scatter ::
  "(row list \<Rightarrow> string \<Rightarrow> string \<Rightarrow> bool) \<Rightarrow> row list \<Rightarrow> string \<Rightarrow> string \<Rightarrow> nat \<Rightarrow> nat
     \<Rightarrow> py_error option" where
  "scatter draws df x_attr y_attr n_colors n_sizes =
     (if \<not> scatter_args_ok (length df) n_colors n_sizes then Some ValueError
      else if \<not> draws df x_attr y_attr then Some RenderError
      else None)"

text \<open>
  \<^verbatim>\<open>Brush.callback\<close>, lines 469-494. The two events are given by their
  \<^verbatim>\<open>(xdata, ydata)\<close>; \<^verbatim>\<open>sorted\<close> of a two-element list is its minimum
  followed by its maximum. \<^verbatim>\<open>self.data\<close> and \<^verbatim>\<open>self.selected\<close> are
  assigned before \<^verbatim>\<open>update_colors\<close> and the drawing can raise.
\<close>

definition callback ::
  "(string \<Rightarrow> real option) \<Rightarrow> (row list \<Rightarrow> string \<Rightarrow> string \<Rightarrow> bool) \<Rightarrow> brush \<Rightarrow>
     real \<times> real \<Rightarrow> real \<times> real \<Rightarrow> string \<Rightarrow> string \<Rightarrow> brush outcome" where
  "callback parse draws b eclick erelease x_attr y_attr =
     (let df = dropna [x_attr, y_attr] (data b);
          df = coerce_column parse x_attr df;
          df = coerce_column parse y_attr df;
          x1 = min (fst eclick) (fst erelease);
          x2 = max (fst eclick) (fst erelease);
          y1 = min (snd eclick) (snd erelease);
          y2 = max (snd eclick) (snd erelease);
          sel = filter (\<lambda>i. between ((df ! i) x_attr) x1 x2 \<and> between ((df ! i) y_attr) y1 y2)
                  [0..<length df];
          b = b\<lparr>data := df, selected := sel\<rparr>
      in case update_colors b (selected b) of
           (b, Some err) \<Rightarrow> (b, Some err)
         | (b, None) \<Rightarrow>
             (b, scatter draws (data b) x_attr y_attr (length (colors b)) (length (sizes b))))"

text \<open>The data frame that lines 474-476 of the callback leave in
  \<^verbatim>\<open>self.data\<close>.\<close>

definition brushed :: "(string \<Rightarrow> real option) \<Rightarrow> string \<Rightarrow> string \<Rightarrow> row list \<Rightarrow> row list" where
  "brushed parse x_attr y_attr df =
     coerce_column parse y_attr (coerce_column parse x_attr (dropna [x_attr, y_attr] df))"

text \<open>The callback run a second time, on the brush as the first run left it
  (whether or not the first run raised), with the same rectangle and
  attributes.\<close>

definition callback_twice ::
  "(string \<Rightarrow> real option) \<Rightarrow> (row list \<Rightarrow> string \<Rightarrow> string \<Rightarrow> bool) \<Rightarrow> brush \<Rightarrow>
     real \<times> real \<Rightarrow> real \<times> real \<Rightarrow> string \<Rightarrow> string \<Rightarrow> brush outcome" where
  "callback_twice parse draws b eclick erelease x_attr y_attr =
     callback parse draws (fst (callback parse draws b eclick erelease x_attr y_attr))
       eclick erelease x_attr y_attr"

text \<open>What the claims observe of a brush: the selected index labels and the
  colour array, and the lengths of the data and of the colour array.\<close>

definition selection_and_colors :: "brush \<Rightarrow> nat list \<times> color list" where
  "selection_and_colors b = (selected b, colors b)"

definition rows_and_colors :: "brush \<Rightarrow> nat \<times> nat" where
  "rows_and_colors b = (length (data b), length (colors b))"

text \<open>
  The part of \<^verbatim>\<open>BrushingChart\<close> that \<^verbatim>\<open>select\<close> (lines 759-782) reads
  and writes: the view's data frame, the two brushes and the current texts of
  the four axis drop-downs. A brush's callback assigns a new frame to the
  brush's own \<^verbatim>\<open>self.data\<close>; the view's frame is not changed by it.
  \<^verbatim>\<open>selected.empty\<close> holds when the selection has no row. The sizes
  \<^verbatim>\<open>self.scale(...)\<close> handed to the other panel's \<^verbatim>\<open>scatter\<close> are one
  per row of the view's frame. The second \<^verbatim>\<open>if\<close> of \<^verbatim>\<open>select\<close> tests
  the same unchanged \<^verbatim>\<open>graph\<close>, so at most one of the two runs.
\<close>

record brushing_chart =
  chart_data :: "row list"
  brush1 :: brush
  brush2 :: brush
  x_dropdown_1 :: string
  y_dropdown_1 :: string
  x_dropdown_2 :: string
  y_dropdown_2 :: string

definition select ::
  "(string \<Rightarrow> real option) \<Rightarrow> (row list \<Rightarrow> string \<Rightarrow> string \<Rightarrow> bool) \<Rightarrow> brushing_chart \<Rightarrow>
     real \<times> real \<Rightarrow> real \<times> real \<Rightarrow> int \<Rightarrow> brushing_chart outcome" where
  "select parse draws v eclick erelease graph =
     (let x_attr1 = x_dropdown_1 v; y_attr1 = y_dropdown_1 v;
          x_attr2 = x_dropdown_2 v; y_attr2 = y_dropdown_2 v
      in if graph = 1 then
           (case callback parse draws (brush1 v) eclick erelease x_attr1 y_attr1 of
              (b1, Some err) \<Rightarrow> (v\<lparr>brush1 := b1\<rparr>, Some err)
            | (b1, None) \<Rightarrow>
                let sel = (if selected b1 \<noteq> [] then selected b1 else [])
                in (case update_colors (brush2 v) sel of
                      (b2, Some err) \<Rightarrow> (v\<lparr>brush1 := b1, brush2 := b2\<rparr>, Some err)
                    | (b2, None) \<Rightarrow>
                        (v\<lparr>brush1 := b1, brush2 := b2\<rparr>,
                         scatter draws (chart_data v) x_attr2 y_attr2 (length (colors b2))
                           (length (chart_data v)))))
         else if graph = 2 then
           (case callback parse draws (brush2 v) eclick erelease x_attr2 y_attr2 of
              (b2, Some err) \<Rightarrow> (v\<lparr>brush2 := b2\<rparr>, Some err)
            | (b2, None) \<Rightarrow>
                let sel = (if selected b2 \<noteq> [] then selected b2 else [])
                in (case update_colors (brush1 v) sel of
                      (b1, Some err) \<Rightarrow> (v\<lparr>brush1 := b1, brush2 := b2\<rparr>, Some err)
                    | (b1, None) \<Rightarrow>
                        (v\<lparr>brush1 := b1, brush2 := b2\<rparr>,
                         scatter draws (chart_data v) x_attr1 y_attr1 (length (colors b1))
                           (length (chart_data v)))))
         else (v, None))"

text \<open>
  Predicates for the statements. A brush never has more rows than default
  colours (\<open>brush_ok\<close>): \<^verbatim>\<open>update_graph\<close> builds it with one default colour
  and one size per row (lines 705-715), which is \<open>brush_fresh\<close>, and the
  callback only ever drops rows. \<open>no_row_dropped\<close>: no row has a missing value
  in the two bound columns. \<open>numeric_column\<close>: every cell of the column is
  missing, a number, or text that reads as a number, so that
  \<^verbatim>\<open>to_numeric\<close> leaves no new \<^verbatim>\<open>NaN\<close> in it. \<open>reads_as\<close>: the cell is
  the number \<open>v\<close>, or text that reads as \<open>v\<close>.
\<close>

definition brush_ok :: "brush \<Rightarrow> bool" where
  "brush_ok b = (length (data b) \<le> length (default_colors b))"



definition numeric_column :: "(string \<Rightarrow> real option) \<Rightarrow> string \<Rightarrow> row list \<Rightarrow> bool" where
  "numeric_column parse attr df =
     list_all (\<lambda>r. case r attr of Str t \<Rightarrow> parse t \<noteq> None | _ \<Rightarrow> True) df"

definition reads_as :: "(string \<Rightarrow> real option) \<Rightarrow> cell \<Rightarrow> real \<Rightarrow> bool" where
  "reads_as parse c v =
     (case c of Null \<Rightarrow> False | Num u \<Rightarrow> u = v | Str t \<Rightarrow> parse t = Some v)"

section \<open>Map view: label visibility\<close>

text \<open>
  A territory's geometry as far as \<^verbatim>\<open>plot_labels\<close> and
  \<^verbatim>\<open>update_labels\<close> read it. For each polygon, shapely computes the
  representative point and the area from the boundary; both are taken as given
  here. The area of a multi-polygon is the sum of the areas of its parts. Any
  other geometry type is \<open>OtherGeometry\<close>; its area is never read.
\<close>

record polygon =
  representative_point :: "real \<times> real"
  area :: real

datatype geometry = Polygon polygon | MultiPolygon "polygon list" | OtherGeometry

definition geometry_area :: "geometry \<Rightarrow> real" where
  "geometry_area g =
     (case g of Polygon p \<Rightarrow> area p | MultiPolygon geoms \<Rightarrow> sum_list (map area geoms)
      | OtherGeometry \<Rightarrow> 0)"

text \<open>\<^verbatim>\<open>max(geoms, key=lambda p: p.area)\<close>: the first polygon of greatest
  area; \<^verbatim>\<open>ValueError\<close> on an empty sequence.\<close>

fun max_by_area :: "polygon list \<Rightarrow> py_error + polygon" where
  "max_by_area [] = Inl ValueError"
| "max_by_area (p # ps) = Inr (fold (\<lambda>q best. if area best < area q then q else best) ps p)"

text \<open>
  \<^verbatim>\<open>shapely.geometry.box(minx, miny, maxx, maxy)\<close> is the rectangle with
  these corners, whichever way round they are given. Its \<^verbatim>\<open>contains\<close> holds
  for the points of its interior (a point on the boundary is not contained);
  its \<^verbatim>\<open>area\<close> is width times height. Python floats are modelled by reals.
\<close>

record box =
  minx :: real
  miny :: real
  maxx :: real
  maxy :: real

definition box_contains :: "box \<Rightarrow> real \<times> real \<Rightarrow> bool" where
  "box_contains b p =
     (min (minx b) (maxx b) < fst p \<and> fst p < max (minx b) (maxx b) \<and>
      min (miny b) (maxy b) < snd p \<and> snd p < max (miny b) (maxy b))"

definition box_area :: "box \<Rightarrow> real" where
  "box_area b = \<bar>maxx b - minx b\<bar> * \<bar>maxy b - miny b\<bar>"

text \<open>
  The point a label belongs to, as both \<^verbatim>\<open>plot_labels\<close> (lines 1013-1019)
  and \<^verbatim>\<open>update_labels\<close> (lines 1041-1048) compute it; \<open>None\<close> is the
  \<^verbatim>\<open>else\<close> branch of a geometry that is neither kind of polygon.
\<close>

definition label_point :: "geometry \<Rightarrow> py_error + (real \<times> real) option" where
  "label_point geometry =
     (case geometry of
        Polygon p \<Rightarrow> Inr (Some (representative_point p))
      | MultiPolygon geoms \<Rightarrow>
          (case max_by_area geoms of
             Inl err \<Rightarrow> Inl err
           | Inr largest_polygon \<Rightarrow> Inr (Some (representative_point largest_polygon)))
      | OtherGeometry \<Rightarrow> Inr None)"

text \<open>The body of the loop of \<^verbatim>\<open>update_labels\<close>, lines 1041-1053: the
  value handed to \<^verbatim>\<open>text.set_visible\<close>.\<close>

definition label_visible :: "box \<Rightarrow> geometry \<Rightarrow> py_error + bool" where
  "label_visible visible_area geometry =
     (case label_point geometry of
        Inl err \<Rightarrow> Inl err
      | Inr None \<Rightarrow> Inr False
      | Inr (Some point) \<Rightarrow>
          let point_in_visible_area = box_contains visible_area point;
              country_area = geometry_area geometry
          in Inr (point_in_visible_area \<and> country_area > box_area visible_area * 0.0015))"

text \<open>A text artist of the map: where it is anchored and whether it is
  shown. \<^verbatim>\<open>self.visible_labels\<close> pairs each with its territory's geometry.\<close>

record text_artist =
  text_position :: "real \<times> real"
  text_visible :: bool

type_synonym labels = "(text_artist \<times> geometry) list"

fun set_labels :: "box \<Rightarrow> labels \<Rightarrow> py_error + labels" where
  "set_labels visible_area [] = Inr []"
| "set_labels visible_area ((text, geometry) # rest) =
     (case label_visible visible_area geometry of
        Inl err \<Rightarrow> Inl err
      | Inr label_vis \<Rightarrow>
          (case set_labels visible_area rest of
             Inl err \<Rightarrow> Inl err
           | Inr rest' \<Rightarrow> Inr ((text\<lparr>text_visible := label_vis\<rparr>, geometry) # rest')))"

text \<open>\<^verbatim>\<open>MapChart.update_labels\<close>, lines 1036-1053, given the axes' current
  \<^verbatim>\<open>get_xlim()\<close> and \<^verbatim>\<open>get_ylim()\<close>.\<close>

definition update_labels :: "real \<times> real \<Rightarrow> real \<times> real \<Rightarrow> labels \<Rightarrow> py_error + labels" where
  "update_labels xlim ylim visible_labels =
     (let visible_area = \<lparr>minx = fst xlim, miny = fst ylim, maxx = snd xlim, maxy = snd ylim\<rparr>
      in set_labels visible_area visible_labels)"

text \<open>
  A row of the world map as \<^verbatim>\<open>plot_labels\<close> reads it: the joined ladder
  score (\<open>None\<close> for \<^verbatim>\<open>NaN\<close>) and the geometry (\<open>None\<close> for a missing
  one). \<^verbatim>\<open>plot_labels\<close>, lines 1010-1028: one label per scored row whose
  geometry is a polygon or a multi-polygon, anchored at the label point, shown
  by default; then \<^verbatim>\<open>update_labels\<close>.
\<close>

record map_row =
  ladder_score :: "real option"
  row_geometry :: "geometry option"

fun new_labels :: "map_row list \<Rightarrow> py_error + labels" where
  "new_labels [] = Inr []"
| "new_labels (row # rows) =
     (case (ladder_score row, row_geometry row) of
        (Some score, Some geometry) \<Rightarrow>
          (case label_point geometry of
             Inl err \<Rightarrow> Inl err
           | Inr None \<Rightarrow> new_labels rows
           | Inr (Some point) \<Rightarrow>
               (case new_labels rows of
                  Inl err \<Rightarrow> Inl err
                | Inr rest \<Rightarrow>
                    Inr ((\<lparr>text_position = point, text_visible = True\<rparr>, geometry) # rest)))
      | _ \<Rightarrow> new_labels rows)"

definition plot_labels :: "real \<times> real \<Rightarrow> real \<times> real \<Rightarrow> map_row list \<Rightarrow> py_error + labels" where
  "plot_labels xlim ylim worldmap =
     (case new_labels worldmap of
        Inl err \<Rightarrow> Inl err
      | Inr visible_labels \<Rightarrow> update_labels xlim ylim visible_labels)"

definition example_territory :: geometry where
  "example_territory =
     MultiPolygon [\<lparr>representative_point = (50, 50), area = 1\<rparr>,
                   \<lparr>representative_point = (0, 0), area = 99\<rparr>]"

text \<open>
  For the proofs: every label is anchored at its geometry's label point (what
  \<^verbatim>\<open>plot_labels\<close> establishes), and the label as \<^verbatim>\<open>update_labels\<close>
  leaves it under a given visible area.
\<close>

definition labels_ok :: "labels \<Rightarrow> bool" where
  "labels_ok ls = list_all (\<lambda>(t, g). label_point g = Inr (Some (text_position t))) ls"

definition shown :: "box \<Rightarrow> text_artist \<times> geometry \<Rightarrow> text_artist \<times> geometry" where
  "shown visible_area tg =
     ((fst tg)\<lparr>text_visible := box_contains visible_area (text_position (fst tg)) \<and>
                 geometry_area (snd tg) > box_area visible_area * 0.0015\<rparr>, snd tg)"

definition example_world :: "map_row list" where
  "example_world =
     [\<lparr>ladder_score = Some 7.8, row_geometry = Some example_territory\<rparr>,
      \<lparr>ladder_score = None,
        row_geometry = Some (Polygon \<lparr>representative_point = (20, 20), area = 300\<rparr>)\<rparr>,
      \<lparr>ladder_score = Some 5, row_geometry = Some OtherGeometry\<rparr>,
      \<lparr>ladder_score = Some 6, row_geometry = None\<rparr>]"

section \<open>Size legends\<close>

text \<open>
  \<^verbatim>\<open>add_size_legend\<close> (lines 25-72) and \<^verbatim>\<open>add_dynamic_size_legend\<close>
  (lines 74-103) start with the same four statements. The size column reaches
  them as numbers without gaps (\<^verbatim>\<open>fillna\<close>, \<^verbatim>\<open>dropna\<close>). A float that
  numpy may compute as \<^verbatim>\<open>NaN\<close> is an optional real here, \<open>None\<close> for
  \<^verbatim>\<open>NaN\<close>: the minimum and maximum of an empty column, and \<open>0 / 0\<close> in the
  marker sizes of a constant column.
\<close>

fun series_min :: "real list \<Rightarrow> real option" where
  "series_min [] = None"
| "series_min (x # xs) = Some (fold min xs x)"

fun series_max :: "real list \<Rightarrow> real option" where
  "series_max [] = None"
| "series_max (x # xs) = Some (fold max xs x)"

text \<open>\<^verbatim>\<open>np.linspace(start, stop, num=3)\<close>: the step is
  \<open>(stop - start) / 2\<close>, the samples are \<open>i * step + start\<close>, and the last one
  is set to \<open>stop\<close>.\<close>

definition linspace3 :: "real option \<Rightarrow> real option \<Rightarrow> real option list" where
  "linspace3 start stop =
     (case (start, stop) of
        (Some a, Some b) \<Rightarrow>
          (let step = (b - a) / 2 in [Some (0 * step + a), Some (1 * step + a), Some b])
      | _ \<Rightarrow> [None, None, None])"

definition size_marker ::
  "real option \<Rightarrow> real option \<Rightarrow> real \<Rightarrow> real option \<Rightarrow> real option" where
  "size_marker size_min size_max scale_factor val =
     (case (size_min, size_max, val) of
        (Some lo, Some hi, Some v) \<Rightarrow>
          if hi - lo = 0 then None
          else Some ((50 + ((v - lo) / (hi - lo)) * 950) * (scale_factor / 50))
      | _ \<Rightarrow> None)"

definition size_values :: "real list \<Rightarrow> real option list" where
  "size_values size_data = linspace3 (series_min size_data) (series_max size_data)"

definition size_markers :: "real list \<Rightarrow> real \<Rightarrow> real option list" where
  "size_markers size_data scale_factor =
     map (size_marker (series_min size_data) (series_max size_data) scale_factor)
       (size_values size_data)"

text \<open>
  A legend handle of \<^verbatim>\<open>add_dynamic_size_legend\<close>: the value its label
  prints (the format \<^verbatim>\<open>.1f\<close> is not modelled) and its marker size, the
  square root of the marker area.
\<close>

record legend_element =
  label_val :: "real option"
  markersize :: "real option"

definition add_dynamic_size_legend :: "real list \<Rightarrow> real \<Rightarrow> legend_element list" where
  "add_dynamic_size_legend size_data scale_factor =
     map (\<lambda>(val, marker). \<lparr>label_val = val, markersize = map_option sqrt marker\<rparr>)
       (zip (size_values size_data) (size_markers size_data scale_factor))"

text \<open>The markers of \<^verbatim>\<open>add_size_legend\<close> (the loop of lines 61-68): the
  \<open>x\<close> position and the area of each; this legend prints no values.\<close>

definition add_size_legend :: "real list \<Rightarrow> real \<Rightarrow> (real \<times> real option) list" where
  "add_size_legend size_data scale_factor =
     map (\<lambda>(i, val, marker). (real i * 1.2, marker))
       (zip [0..<length (size_values size_data)]
          (zip (size_values size_data) (size_markers size_data scale_factor)))"

text \<open>
  The median, as the claim about the legend words it; the source computes no
  median. It is the middle element of the sorted column, or the mean of the two
  middle elements when the length is even.
\<close>

definition median_spec :: "real list \<Rightarrow> real" where
  "median_spec xs =
     (let s = sort xs; n = length s
      in if odd n then s ! (n div 2) else (s ! (n div 2 - 1) + s ! (n div 2)) / 2)"

text \<open>
  The size data of a render pass. \<^verbatim>\<open>BrushingChart.update_graph\<close> first
  replaces the colour column by its factor codes when that column holds text
  (lines 699-700; codes number the distinct values in order of first
  appearance, a missing value gets -1), then takes the size column through
  \<^verbatim>\<open>pd.to_numeric(..., errors='coerce')\<close>, \<^verbatim>\<open>fillna(1)\<close> and
  \<^verbatim>\<open>clip(lower=0)\<close> (lines 702-703) and hands the result to
  \<^verbatim>\<open>add_dynamic_size_legend\<close> when the legend is enabled (lines 741-743),
  with the slider's integer value as scale factor. A column has a numeric dtype
  when it holds no text. \<^verbatim>\<open>BubbleChart.update_data\<close> hands the population
  column as it is to \<^verbatim>\<open>add_size_legend\<close>, with scale factor 100 (line 265);
  the \<^verbatim>\<open>dropna\<close> of line 144 has left only numbers in it, and
  \<^verbatim>\<open>min\<close> and \<^verbatim>\<open>max\<close> would skip a missing value.
\<close>

definition is_numeric_dtype :: "cell list \<Rightarrow> bool" where
  "is_numeric_dtype col = list_all (\<lambda>c. case c of Str t \<Rightarrow> False | _ \<Rightarrow> True) col"

fun first_index :: "cell list \<Rightarrow> cell \<Rightarrow> nat" where
  "first_index [] c = 0"
| "first_index (u # us) c = (if c = u then 0 else Suc (first_index us c))"

definition factorize :: "cell list \<Rightarrow> cell list" where
  "factorize col =
     (let uniques = rev (remdups (rev (filter (\<lambda>c. c \<noteq> Null) col)))
      in map (\<lambda>c. if c = Null then Num (- 1) else Num (real (first_index uniques c))) col)"

definition update_graph_size_data ::
  "(string \<Rightarrow> real option) \<Rightarrow> row list \<Rightarrow> string \<Rightarrow> string \<Rightarrow> real list" where
  "update_graph_size_data parse df color_attr size_attr =
     (let col = map (\<lambda>r. r color_attr) df;
          df = (if \<not> is_numeric_dtype col
                then map (\<lambda>(r, c). r(color_attr := c)) (zip df (factorize col))
                else df);
          size_data = map (\<lambda>r. to_numeric parse (r size_attr)) df;
          size_data = map (\<lambda>c. case c of Num v \<Rightarrow> v | _ \<Rightarrow> 1) size_data;
          size_data = map (\<lambda>v. max v 0) size_data
      in size_data)"

definition update_graph_legend ::
  "bool \<Rightarrow> (string \<Rightarrow> real option) \<Rightarrow> row list \<Rightarrow> string \<Rightarrow> string \<Rightarrow> int
     \<Rightarrow> legend_element list option" where
  "update_graph_legend legend_enabled parse df color_attr size_attr scale_factor =
     (if legend_enabled
      then Some (add_dynamic_size_legend (update_graph_size_data parse df color_attr size_attr)
                   (real_of_int scale_factor))
      else None)"

text \<open>
  \<^verbatim>\<open>BrushingChart.toggle_legend\<close>, lines 883-913, for one panel: the flag is
  flipped, and when the legend is now enabled it is built again from the size
  column cleaned in the same way (lines 889, 904; no factor codes here).
\<close>

definition toggle_legend_size_data :: "(string \<Rightarrow> real option) \<Rightarrow> row list \<Rightarrow> string \<Rightarrow> real list" where
  "toggle_legend_size_data parse df size_attr =
     (let size_data = map (\<lambda>r. to_numeric parse (r size_attr)) df;
          size_data = map (\<lambda>c. case c of Num v \<Rightarrow> v | _ \<Rightarrow> 1) size_data;
          size_data = map (\<lambda>v. max v 0) size_data
      in size_data)"

definition toggle_legend ::
  "bool \<Rightarrow> (string \<Rightarrow> real option) \<Rightarrow> row list \<Rightarrow> string \<Rightarrow> int
     \<Rightarrow> bool \<times> legend_element list option" where
  "toggle_legend legend_enabled parse df size_attr scale_factor =
     (let legend_enabled = \<not> legend_enabled
      in if legend_enabled
         then (legend_enabled,
               Some (add_dynamic_size_legend (toggle_legend_size_data parse df size_attr)
                       (real_of_int scale_factor)))
         else (legend_enabled, None))"

fun numbers :: "cell list \<Rightarrow> real list" where
  "numbers [] = []"
| "numbers (Num v # cs) = v # numbers cs"
| "numbers (c # cs) = numbers cs"

definition update_data_size_data :: "row list \<Rightarrow> real list" where
  "update_data_size_data df = numbers (map (\<lambda>r. r ''pop_est'') df)"

definition update_data_legend :: "row list \<Rightarrow> (real \<times> real option) list" where
  "update_data_legend df = add_size_legend (update_data_size_data df) 100"

text \<open>A column is not constant when it holds two different values.\<close>

definition non_constant :: "real list \<Rightarrow> bool" where
  "non_constant xs = list_ex (\<lambda>a. list_ex (\<lambda>b. a \<noteq> b) xs) xs"

section \<open>Example frames\<close>

text \<open>
  Small frames on which the theorems below are evaluated. \<open>frame_null\<close> has a
  missing \<open>x\<close> in its first row. \<open>frame_dash\<close> has a text column \<open>x\<close> as
  \<^verbatim>\<open>read_csv\<close> gives one when a numeric column marks its gaps with a dash;
  \<open>parse_dash\<close> reads the text \<open>5\<close> as the number 5 and no other text as
  a number. \<open>frame_names\<close> has a column of names, which no reading turns into
  numbers. \<open>frame_plain\<close> is all numbers, and \<open>chart_plain\<close> is a linked view of
  it whose second panel swaps the axes. \<open>draws_all\<close> is a matplotlib that renders
  whatever passes the argument check. The frames \<open>frame_sizes\<close>,
  \<open>frame_sizes_mixed\<close> and \<open>frame_sizes_negative\<close> have a size column \<open>s\<close>:
  numbers, text with a dash, and numbers with a negative one; \<open>frame_pop\<close> has a
  population column.
\<close>

definition red :: color where "red = (1, 0, 0, 1)"
definition green :: color where "green = (0, 1, 0, 1)"
definition blue :: color where "blue = (0, 0, 1, 1)"

definition row_xy :: "cell \<Rightarrow> cell \<Rightarrow> row" where
  "row_xy cx cy = (\<lambda>a. if a = ''x'' then cx else if a = ''y'' then cy else Null)"

definition frame_null :: "row list" where
  "frame_null = [row_xy Null (Num 1), row_xy (Num 2) (Num 3), row_xy (Num 5) (Num 3)]"

definition frame_plain :: "row list" where
  "frame_plain = [row_xy (Num 2) (Num 3), row_xy (Num 5) (Num 3)]"

definition frame_dash :: "row list" where
  "frame_dash = [row_xy (Str ''-'') (Num 1), row_xy (Str ''5'') (Num 1)]"

definition frame_names :: "row list" where
  "frame_names = [row_xy (Str ''Finland'') (Num 7), row_xy (Str ''Denmark'') (Num 6)]"

definition parse_dash :: "string \<Rightarrow> real option" where
  "parse_dash t = (if t = ''5'' then Some 5 else None)"

definition draws_all :: "row list \<Rightarrow> string \<Rightarrow> string \<Rightarrow> bool" where
  "draws_all df x_attr y_attr = True"

definition chart_plain :: brushing_chart where
  "chart_plain =
     \<lparr>chart_data = frame_plain,
      brush1 = Brush_init frame_plain [red, green] [50, 60],
      brush2 = Brush_init frame_plain [blue, green] [70, 80],
      x_dropdown_1 = ''x'', y_dropdown_1 = ''y'',
      x_dropdown_2 = ''y'', y_dropdown_2 = ''x''\<rparr>"

definition row_s :: "cell \<Rightarrow> row" where
  "row_s c = (\<lambda>a. if a = ''s'' then c else Num 1)"

definition frame_sizes :: "row list" where
  "frame_sizes = [row_s (Num 0), row_s (Num 0), row_s (Num 10)]"

definition frame_sizes_mixed :: "row list" where
  "frame_sizes_mixed = [row_s (Str ''-''), row_s (Str ''5'')]"

definition frame_sizes_negative :: "row list" where
  "frame_sizes_negative = [row_s (Num (- 10)), row_s (Num 4), row_s (Num 10)]"

definition frame_pop :: "row list" where
  "frame_pop =
     [\<lambda>a. if a = ''pop_est'' then Num 0 else Null,
      \<lambda>a. if a = ''pop_est'' then Num 0 else Null,
      \<lambda>a. if a = ''pop_est'' then Num 10 else Null]"

section \<open>Theorems: tooltip placement\<close>

lemma flip_offset_default:
  "0 \<le> m \<Longrightarrow> m + 20 + t \<le> w \<Longrightarrow> flip_offset m t w = 20"
  by (simp add: flip_offset_def)

lemma flip_offset_flipped:
  "m + 20 + t > w \<Longrightarrow> t + 20 \<le> m \<Longrightarrow> flip_offset m t w = - t - 20"
  by (simp add: flip_offset_def)

lemma flip_offset_fits:
  assumes "0 \<le> m" "m < w" "0 \<le> t"
    and "m + 25 + t \<le> w \<or> (m + 20 + t > w \<and> t + 20 \<le> m)"
  shows "0 \<le> m + flip_offset m t w + 5 \<and> m + flip_offset m t w + 5 + t \<le> w"
  using assms(4)
proof
  assume fits: "m + 25 + t \<le> w"
  then have "flip_offset m t w = 20"
    using assms(1) by (simp add: flip_offset_default)
  with fits assms(1) show ?thesis by simp
next
  assume flipped: "m + 20 + t > w \<and> t + 20 \<le> m"
  then have "flip_offset m t w = - t - 20"
    by (simp add: flip_offset_flipped)
  with flipped assms(2,3) show ?thesis by simp
qed

text \<open>
  C4, as stated, fails. Bubble view, window 1000 x 800, tooltip 225 x 63 (its
  fixed size): at cursor (755, 100) the default placement passes the overflow
  test (755 + 20 + 225 = 1000 is not greater than 1000), and the later +5 puts
  the right edge at 1005. Brushing view, window 1000 x 600, tooltip 400 x 300:
  at cursor (100, 300) the tooltip fits neither below nor above the cursor, the
  second test restores the offset 20, and the bottom edge is at 625.
\<close>

theorem tooltip_outside_window_counterexample:
  "\<not> tooltip_inside (tooltip_move 755 100 225 63 1000 800) 225 63 1000 800 \<and>
   tooltip_move 755 100 225 63 1000 800 = (780, 125) \<and>
   \<not> tooltip_inside (tooltip_move 100 300 400 300 1000 600) 400 300 1000 600 \<and>
   tooltip_move 100 300 400 300 1000 600 = (125, 325)"
  by (simp add: tooltip_inside_def tooltip_move_def flip_offset_def)

text \<open>
  C4, amended. For a cursor inside the window, the tooltip moved to the final
  position (+5 included) lies inside the window whenever, on each axis, either
  the default side has room for the tooltip at distance 25 from the cursor, or
  the default offset of 20 overflows and the opposite side has room for the
  tooltip at distance 20.
\<close>

theorem tooltip_inside_when_room:
  assumes "0 \<le> mouse_x" "mouse_x < window_width"
    and "0 \<le> mouse_y" "mouse_y < window_height"
    and "0 \<le> tooltip_width" "0 \<le> tooltip_height"
    and "mouse_x + 25 + tooltip_width \<le> window_width \<or>
         (mouse_x + 20 + tooltip_width > window_width \<and> tooltip_width + 20 \<le> mouse_x)"
    and "mouse_y + 25 + tooltip_height \<le> window_height \<or>
         (mouse_y + 20 + tooltip_height > window_height \<and> tooltip_height + 20 \<le> mouse_y)"
  shows "tooltip_inside
           (tooltip_move mouse_x mouse_y tooltip_width tooltip_height window_width window_height)
           tooltip_width tooltip_height window_width window_height"
proof -
  have x: "0 \<le> mouse_x + flip_offset mouse_x tooltip_width window_width + 5 \<and>
           mouse_x + flip_offset mouse_x tooltip_width window_width + 5 + tooltip_width
             \<le> window_width"
    using assms(1,2,5,7) by (rule flip_offset_fits)
  have y: "0 \<le> mouse_y + flip_offset mouse_y tooltip_height window_height + 5 \<and>
           mouse_y + flip_offset mouse_y tooltip_height window_height + 5 + tooltip_height
             \<le> window_height"
    using assms(3,4,6,8) by (rule flip_offset_fits)
  from x y show ?thesis
    by (simp add: tooltip_inside_def tooltip_move_def Let_def)
qed

theorem tooltip_inside_when_room_witness:
  "tooltip_inside (tooltip_move 900 100 225 63 1000 800) 225 63 1000 800 \<and>
   tooltip_move 900 100 225 63 1000 800 = (660, 125)"
  using tooltip_inside_when_room [of 900 1000 100 800 225 63]
  by (simp add: tooltip_move_def flip_offset_def)

section \<open>Theorems: bubble view\<close>

lemma bubble_inv_row:
  "bubble_inv s \<Longrightarrow> i < length (bubble_data s) \<Longrightarrow> row_ok s i"
  by (simp add: bubble_inv_def list_all_iff)

lemma bubble_inv_lengths:
  "bubble_inv s \<Longrightarrow> length (edgecolors s) = length (bubble_data s)"
  "bubble_inv s \<Longrightarrow> length (linewidths s) = length (bubble_data s)"
  by (simp_all add: bubble_inv_def)

lemma bubble_invI:
  "length (edgecolors s) = length (bubble_data s) \<Longrightarrow>
   length (linewidths s) = length (bubble_data s) \<Longrightarrow>
   (\<And>i. i < length (bubble_data s) \<Longrightarrow> row_ok s i) \<Longrightarrow> bubble_inv s"
  by (simp add: bubble_inv_def list_all_iff)

lemma bubble_inv_init: "bubble_inv (bubble_init df)"
  by (rule bubble_invI) (simp_all add: bubble_init_def row_ok_def)

lemma on_hover_persistent:
  assumes "on_hover s e = Inr s'"
  shows "bubble_data s' = bubble_data s \<and> edgecolors s' = edgecolors s \<and>
     linewidths s' = linewidths s \<and> selected_indices s' = selected_indices s"
proof (cases "inaxes e")
  case False
  with assms show ?thesis by (auto simp: on_hover_def)
next
  case True
  show ?thesis
  proof (cases "contains_ind e")
    case Nil
    with True assms show ?thesis by (auto simp: on_hover_def)
  next
    case (Cons i rest)
    with True assms show ?thesis
      by (auto simp: on_hover_def Let_def split: if_splits)
  qed
qed

lemma row_ok_cong:
  "edgecolors s' = edgecolors s \<Longrightarrow> linewidths s' = linewidths s \<Longrightarrow>
   selected_indices s' = selected_indices s \<Longrightarrow> row_ok s' = row_ok s"
  by (rule ext) (simp add: row_ok_def)

lemma on_hover_inv:
  assumes "bubble_inv s" "on_hover s e = Inr s'"
  shows "bubble_inv s'"
proof -
  note same = on_hover_persistent [OF assms(2)]
  then have "row_ok s' = row_ok s"
    by (intro row_ok_cong) simp_all
  with assms(1) same show ?thesis
    by (simp add: bubble_inv_def)
qed

lemma update_data_inv: "bubble_inv (update_data s) = bubble_inv s"
proof -
  have "row_ok (update_data s) = row_ok s"
    by (rule row_ok_cong) (simp_all add: update_data_def)
  then show ?thesis
    by (simp add: bubble_inv_def update_data_def)
qed

lemma on_click_miss: "\<not> inaxes e \<or> contains_ind e = [] \<Longrightarrow> on_click s e = Inr s"
  by (auto simp: on_click_def)

lemma on_click_select:
  "inaxes e \<Longrightarrow> contains_ind e = i # rest \<Longrightarrow> i < length (edgecolors s) \<Longrightarrow>
   i < length (linewidths s) \<Longrightarrow> edgecolors s ! i \<noteq> ''red'' \<Longrightarrow>
   on_click s e = Inr (select_row s i)"
  by (simp add: on_click_def select_row_def)

lemma on_click_deselect:
  "inaxes e \<Longrightarrow> contains_ind e = i # rest \<Longrightarrow> i < length (edgecolors s) \<Longrightarrow>
   i < length (linewidths s) \<Longrightarrow> edgecolors s ! i = ''red'' \<Longrightarrow> i \<in> selected_indices s \<Longrightarrow>
   on_click s e = Inr (deselect_row s i)"
  by (simp add: on_click_def deselect_row_def)

lemma on_click_cases:
  assumes "on_click s e = Inr s'"
  obtains "s' = s"
  | i where "s' = select_row s i"
  | i where "s' = deselect_row s i"
proof (cases "inaxes e")
  case False
  with assms that(1) show ?thesis by (simp add: on_click_def)
next
  case True
  show ?thesis
  proof (cases "contains_ind e")
    case Nil
    with True assms that(1) show ?thesis by (simp add: on_click_def)
  next
    case (Cons i rest)
    show ?thesis
    proof (cases "edgecolors s ! i = ''red''")
      case red: True
      with True Cons assms have "s' = deselect_row s i"
        by (simp add: on_click_def deselect_row_def split: if_splits)
      then show ?thesis by (rule that(3))
    next
      case False
      with True Cons assms have "s' = select_row s i"
        by (simp add: on_click_def select_row_def split: if_splits)
      then show ?thesis by (rule that(2))
    qed
  qed
qed

lemma select_row_inv:
  assumes "bubble_inv s"
  shows "bubble_inv (select_row s i)"
proof (rule bubble_invI)
  show "length (edgecolors (select_row s i)) = length (bubble_data (select_row s i))"
    using assms by (simp add: select_row_def update_data_def bubble_inv_lengths)
  show "length (linewidths (select_row s i)) = length (bubble_data (select_row s i))"
    using assms by (simp add: select_row_def update_data_def bubble_inv_lengths)
  fix j assume "j < length (bubble_data (select_row s i))"
  then have j: "j < length (bubble_data s)"
    by (simp add: select_row_def update_data_def)
  show "row_ok (select_row s i) j"
  proof (cases "j = i")
    case True
    with j assms show ?thesis
      by (simp add: row_ok_def select_row_def update_data_def bubble_inv_lengths)
  next
    case False
    with bubble_inv_row [OF assms j] show ?thesis
      by (simp add: row_ok_def select_row_def update_data_def)
  qed
qed

lemma deselect_row_inv:
  assumes "bubble_inv s"
  shows "bubble_inv (deselect_row s i)"
proof (rule bubble_invI)
  show "length (edgecolors (deselect_row s i)) = length (bubble_data (deselect_row s i))"
    using assms by (simp add: deselect_row_def update_data_def bubble_inv_lengths)
  show "length (linewidths (deselect_row s i)) = length (bubble_data (deselect_row s i))"
    using assms by (simp add: deselect_row_def update_data_def bubble_inv_lengths)
  fix j assume "j < length (bubble_data (deselect_row s i))"
  then have j: "j < length (bubble_data s)"
    by (simp add: deselect_row_def update_data_def)
  show "row_ok (deselect_row s i) j"
  proof (cases "j = i")
    case True
    with j assms show ?thesis
      by (simp add: row_ok_def deselect_row_def update_data_def bubble_inv_lengths)
  next
    case False
    with bubble_inv_row [OF assms j] show ?thesis
      by (simp add: row_ok_def deselect_row_def update_data_def)
  qed
qed

lemma on_click_inv:
  assumes "bubble_inv s" "on_click s e = Inr s'"
  shows "bubble_inv s'"
  using assms(2)
  by (rule on_click_cases) (simp_all add: assms(1) select_row_inv deselect_row_inv)

lemma bubble_step_inv:
  assumes "bubble_inv s" "bubble_step s e = Inr s'"
  shows "bubble_inv s'"
proof (cases e)
  case (Hover x)
  with assms show ?thesis by (simp add: on_hover_inv)
next
  case (Click x)
  with assms show ?thesis by (simp add: on_click_inv)
next
  case Button
  with assms show ?thesis by (auto simp: update_data_inv)
qed

lemma bubble_run_inv: "bubble_inv s \<Longrightarrow> bubble_run s es = Inr s' \<Longrightarrow> bubble_inv s'"
proof (induction es arbitrary: s)
  case Nil
  then show ?case by simp
next
  case (Cons e es)
  show ?case
  proof (cases "bubble_step s e")
    case (Inl err)
    with Cons.prems(2) show ?thesis by simp
  next
    case (Inr s1)
    with Cons.prems have "bubble_inv s1" "bubble_run s1 es = Inr s'"
      by (simp_all add: bubble_step_inv)
    then show ?thesis by (rule Cons.IH)
  qed
qed


lemma on_click_data: "on_click s e = Inr s' \<Longrightarrow> bubble_data s' = bubble_data s"
  by (erule on_click_cases) (simp_all add: select_row_def deselect_row_def update_data_def)

lemma bubble_step_data: "bubble_step s e = Inr s' \<Longrightarrow> bubble_data s' = bubble_data s"
  by (cases e) (auto simp: on_click_data on_hover_persistent update_data_def)

lemma bubble_run_data: "bubble_run s es = Inr s' \<Longrightarrow> bubble_data s' = bubble_data s"
proof (induction es arbitrary: s)
  case Nil
  then show ?case by simp
next
  case (Cons e es)
  show ?case
  proof (cases "bubble_step s e")
    case (Inl err)
    with Cons.prems show ?thesis by simp
  next
    case (Inr s1)
    with Cons.prems have "bubble_run s1 es = Inr s'" by simp
    then have "bubble_data s' = bubble_data s1" by (rule Cons.IH)
    with Inr show ?thesis by (simp add: bubble_step_data)
  qed
qed

lemma bubble_reachable:
  assumes "bubble_run (bubble_init df) events = Inr s"
  shows "bubble_inv s \<and> bubble_data s = df"
  using bubble_run_inv [OF bubble_inv_init assms] bubble_run_data [OF assms]
  by (simp add: bubble_init_def)

text \<open>
  C6. In any state the bubble view reaches from its construction, two clicks
  that hit the same row both return, and after them the persistent edge
  colours, line widths and the selection set are what they were before the
  first click. The first click does toggle the row (its edge colour and its
  membership change) and leaves every other row's edge colour, line width and
  membership as they were; hence so does the second.
\<close>

theorem click_twice_restores:
  assumes run: "bubble_run (bubble_init df) events = Inr s"
    and hit: "inaxes event" "contains_ind event = i # rest" "i < length df"
  shows "\<exists>s1 s2. on_click s event = Inr s1 \<and> on_click s1 event = Inr s2 \<and>
           edgecolors s2 = edgecolors s \<and> linewidths s2 = linewidths s \<and>
           selected_indices s2 = selected_indices s \<and>
           edgecolors s1 ! i \<noteq> edgecolors s ! i \<and>
           (i \<in> selected_indices s1 \<longleftrightarrow> i \<notin> selected_indices s) \<and>
           (\<forall>j. j \<noteq> i \<longrightarrow>
              edgecolors s1 ! j = edgecolors s ! j \<and> linewidths s1 ! j = linewidths s ! j \<and>
              (j \<in> selected_indices s1 \<longleftrightarrow> j \<in> selected_indices s))"
proof -
  from bubble_reachable [OF run] have inv: "bubble_inv s" and i: "i < length (bubble_data s)"
    using hit(3) by simp_all
  have le: "i < length (edgecolors s)" and lw: "i < length (linewidths s)"
    using inv i by (simp_all add: bubble_inv_lengths)
  from bubble_inv_row [OF inv i] consider
    (unselected) "edgecolors s ! i = ''white''" and "linewidths s ! i = 0.5"
      and "i \<notin> selected_indices s"
  | (selected) "edgecolors s ! i = ''red''" and "linewidths s ! i = 2"
      and "i \<in> selected_indices s"
    by (auto simp: row_ok_def)
  then show ?thesis
  proof cases
    case unselected
    let ?s1 = "select_row s i"
    have c1: "on_click s event = Inr ?s1"
      using hit(1,2) le lw unselected(1) by (simp add: on_click_select)
    have c2: "on_click ?s1 event = Inr (deselect_row ?s1 i)"
      using hit(1,2) le lw
      by (intro on_click_deselect) (simp_all add: select_row_def update_data_def)
    have restored: "edgecolors (deselect_row ?s1 i) = edgecolors s"
      "linewidths (deselect_row ?s1 i) = linewidths s"
      "selected_indices (deselect_row ?s1 i) = selected_indices s"
      using unselected
      by (simp_all add: select_row_def deselect_row_def update_data_def list_update_same_conv le lw)
    have others: "\<forall>j. j \<noteq> i \<longrightarrow>
        edgecolors ?s1 ! j = edgecolors s ! j \<and> linewidths ?s1 ! j = linewidths s ! j \<and>
        (j \<in> selected_indices ?s1 \<longleftrightarrow> j \<in> selected_indices s)"
      by (simp add: select_row_def update_data_def)
    have toggled: "edgecolors ?s1 ! i \<noteq> edgecolors s ! i"
      "i \<in> selected_indices ?s1 \<longleftrightarrow> i \<notin> selected_indices s"
      using unselected le by (simp_all add: select_row_def update_data_def)
    from c1 c2 restored others toggled show ?thesis by blast
  next
    case selected
    let ?s1 = "deselect_row s i"
    have c1: "on_click s event = Inr ?s1"
      using hit(1,2) le lw selected(1,3) by (simp add: on_click_deselect)
    have c2: "on_click ?s1 event = Inr (select_row ?s1 i)"
      using hit(1,2) le lw
      by (intro on_click_select) (simp_all add: deselect_row_def update_data_def)
    have restored: "edgecolors (select_row ?s1 i) = edgecolors s"
      "linewidths (select_row ?s1 i) = linewidths s"
      "selected_indices (select_row ?s1 i) = selected_indices s"
      using selected
      by (auto simp: select_row_def deselect_row_def update_data_def list_update_same_conv le lw)
    have others: "\<forall>j. j \<noteq> i \<longrightarrow>
        edgecolors ?s1 ! j = edgecolors s ! j \<and> linewidths ?s1 ! j = linewidths s ! j \<and>
        (j \<in> selected_indices ?s1 \<longleftrightarrow> j \<in> selected_indices s)"
      by (simp add: deselect_row_def update_data_def)
    have toggled: "edgecolors ?s1 ! i \<noteq> edgecolors s ! i"
      "i \<in> selected_indices ?s1 \<longleftrightarrow> i \<notin> selected_indices s"
      using selected le by (simp_all add: deselect_row_def update_data_def)
    from c1 c2 restored others toggled show ?thesis by blast
  qed
qed


theorem click_twice_restores_witness:
  "bubble_run (bubble_init [\<lambda>a. Null, \<lambda>a. Num 1])
       [Click \<lparr>inaxes = True, contains_ind = [1], pos_x = 10, pos_y = 10, tip_width = 225,
               tip_height = 63, geometry_width = 1000, geometry_height = 800\<rparr>]
     = Inr (select_row (bubble_init [\<lambda>a. Null, \<lambda>a. Num 1]) 1) \<and>
   (\<exists>s1 s2.
      on_click (select_row (bubble_init [\<lambda>a. Null, \<lambda>a. Num 1]) 1)
        \<lparr>inaxes = True, contains_ind = [1, 0], pos_x = 12, pos_y = 10, tip_width = 225,
          tip_height = 63, geometry_width = 1000, geometry_height = 800\<rparr> = Inr s1 \<and>
      on_click s1
        \<lparr>inaxes = True, contains_ind = [1, 0], pos_x = 12, pos_y = 10, tip_width = 225,
          tip_height = 63, geometry_width = 1000, geometry_height = 800\<rparr> = Inr s2 \<and>
      edgecolors s2 = [''white'', ''red''] \<and> linewidths s2 = [0.5, 2] \<and>
      selected_indices s2 = {1})"
proof -
  let ?df = "[\<lambda>a. Null, \<lambda>a. Num 1] :: row list"
  let ?e1 = "\<lparr>inaxes = True, contains_ind = [1], pos_x = 10, pos_y = 10, tip_width = 225,
               tip_height = 63, geometry_width = 1000, geometry_height = 800\<rparr>"
  let ?e2 = "\<lparr>inaxes = True, contains_ind = [1, 0], pos_x = 12, pos_y = 10, tip_width = 225,
          tip_height = 63, geometry_width = 1000, geometry_height = 800\<rparr>"
  have run: "bubble_run (bubble_init ?df) [Click ?e1] = Inr (select_row (bubble_init ?df) 1)"
    by (simp add: on_click_def select_row_def bubble_init_def)
  have state: "edgecolors (select_row (bubble_init ?df) 1) = [''white'', ''red'']"
    "linewidths (select_row (bubble_init ?df) 1) = [0.5, 2]"
    "selected_indices (select_row (bubble_init ?df) 1) = {1}"
    by (simp_all add: select_row_def bubble_init_def update_data_def)
  from click_twice_restores [OF run, of ?e2 1 "[0]"] state run show ?thesis
    by auto
qed

text \<open>
  C10. In any state the bubble view reaches from its construction, the hover
  handler returns and leaves \<^verbatim>\<open>self.edgecolors\<close>, \<^verbatim>\<open>self.linewidths\<close>
  and \<^verbatim>\<open>self.selected_indices\<close> as they were. On a hit, a row whose
  persistent edge colour is red is drawn with the persistent arrays unchanged
  (its border stays red); any other hit row is drawn from a copy with a black
  border of width 2 at that row. On a miss inside the axes the drawn styling is
  exactly the persistent arrays.
\<close>

theorem on_hover_frame:
  assumes run: "bubble_run (bubble_init df) events = Inr s"
    and hits: "list_all (\<lambda>i. i < length df) (contains_ind event)"
  shows "\<exists>s'. on_hover s event = Inr s' \<and>
           edgecolors s' = edgecolors s \<and> linewidths s' = linewidths s \<and>
           selected_indices s' = selected_indices s \<and>
           (\<forall>i rest. inaxes event \<and> contains_ind event = i # rest \<longrightarrow>
              (if edgecolors s ! i = ''red''
               then scatter_edgecolors s' = edgecolors s \<and> scatter_linewidths s' = linewidths s \<and>
                    scatter_edgecolors s' ! i = ''red''
               else scatter_edgecolors s' = (edgecolors s)[i := ''black''] \<and>
                    scatter_linewidths s' = (linewidths s)[i := 2])) \<and>
           (inaxes event \<and> contains_ind event = [] \<longrightarrow>
              scatter_edgecolors s' = edgecolors s \<and> scatter_linewidths s' = linewidths s)"
proof -
  from bubble_reachable [OF run] have inv: "bubble_inv s" and df: "bubble_data s = df"
    by simp_all
  show ?thesis
  proof (cases "inaxes event")
    case False
    then show ?thesis by (simp add: on_hover_def)
  next
    case True
    show ?thesis
    proof (cases "contains_ind event")
      case Nil
      with True show ?thesis by (simp add: on_hover_def)
    next
      case (Cons i rest)
      with hits df have i: "i < length (bubble_data s)" by simp
      with inv have le: "i < length (edgecolors s)" and lw: "i < length (linewidths s)"
        by (simp_all add: bubble_inv_lengths)
      show ?thesis
      proof (cases "edgecolors s ! i = ''red''")
        case red: True
        with True Cons i le lw show ?thesis by (simp add: on_hover_def)
      next
        case False
        with True Cons i le lw show ?thesis by (simp add: on_hover_def)
      qed
    qed
  qed
qed

theorem on_hover_frame_witness:
  "bubble_run (bubble_init [\<lambda>a. Null, \<lambda>a. Num 1])
       [Click \<lparr>inaxes = True, contains_ind = [1], pos_x = 10, pos_y = 10, tip_width = 225,
               tip_height = 63, geometry_width = 1000, geometry_height = 800\<rparr>]
     = Inr (select_row (bubble_init [\<lambda>a. Null, \<lambda>a. Num 1]) 1) \<and>
   (\<exists>s'.
      on_hover (select_row (bubble_init [\<lambda>a. Null, \<lambda>a. Num 1]) 1)
        \<lparr>inaxes = True, contains_ind = [1], pos_x = 12, pos_y = 10, tip_width = 225,
          tip_height = 63, geometry_width = 1000, geometry_height = 800\<rparr> = Inr s' \<and>
      edgecolors s' = [''white'', ''red''] \<and> linewidths s' = [0.5, 2] \<and>
      selected_indices s' = {1} \<and>
      scatter_edgecolors s' = [''white'', ''red''] \<and> scatter_linewidths s' = [0.5, 2]) \<and>
   (\<exists>s'.
      on_hover (select_row (bubble_init [\<lambda>a. Null, \<lambda>a. Num 1]) 1)
        \<lparr>inaxes = True, contains_ind = [0], pos_x = 12, pos_y = 10, tip_width = 225,
          tip_height = 63, geometry_width = 1000, geometry_height = 800\<rparr> = Inr s' \<and>
      edgecolors s' = [''white'', ''red''] \<and> linewidths s' = [0.5, 2] \<and>
      selected_indices s' = {1} \<and>
      scatter_edgecolors s' = [''black'', ''red''] \<and> scatter_linewidths s' = [2, 2])"
proof -
  let ?df = "[\<lambda>a. Null, \<lambda>a. Num 1] :: row list"
  let ?e1 = "\<lparr>inaxes = True, contains_ind = [1], pos_x = 10, pos_y = 10, tip_width = 225,
               tip_height = 63, geometry_width = 1000, geometry_height = 800\<rparr>"
  let ?h1 = "\<lparr>inaxes = True, contains_ind = [1], pos_x = 12, pos_y = 10, tip_width = 225,
          tip_height = 63, geometry_width = 1000, geometry_height = 800\<rparr>"
  let ?h0 = "\<lparr>inaxes = True, contains_ind = [0], pos_x = 12, pos_y = 10, tip_width = 225,
          tip_height = 63, geometry_width = 1000, geometry_height = 800\<rparr>"
  have run: "bubble_run (bubble_init ?df) [Click ?e1] = Inr (select_row (bubble_init ?df) 1)"
    by (simp add: on_click_def select_row_def bubble_init_def)
  have state: "edgecolors (select_row (bubble_init ?df) 1) = [''white'', ''red'']"
    "linewidths (select_row (bubble_init ?df) 1) = [0.5, 2]"
    "selected_indices (select_row (bubble_init ?df) 1) = {1}"
    by (simp_all add: select_row_def bubble_init_def update_data_def)
  have hits1: "list_all (\<lambda>i. i < length ?df) (contains_ind ?h1)"
    and hits0: "list_all (\<lambda>i. i < length ?df) (contains_ind ?h0)"
    by simp_all
  from on_hover_frame [OF run hits1] on_hover_frame [OF run hits0] state run show ?thesis
    by auto
qed

section \<open>Theorems: map label visibility\<close>

lemma set_labels_map:
  "labels_ok ls \<Longrightarrow> set_labels visible_area ls = Inr (map (shown visible_area) ls)"
proof (induction ls)
  case Nil
  then show ?case by simp
next
  case (Cons tg ls)
  obtain t g where tg: "tg = (t, g)" by (cases tg)
  from Cons.prems have pt: "label_point g = Inr (Some (text_position t))" and rest: "labels_ok ls"
    by (simp_all add: labels_ok_def tg)
  from pt have "label_visible visible_area g =
      Inr (box_contains visible_area (text_position t) \<and>
           geometry_area g > box_area visible_area * 0.0015)"
    by (simp add: label_visible_def)
  with Cons.IH [OF rest] show ?case
    by (simp add: tg shown_def)
qed

lemma labels_ok_shown: "labels_ok ls \<Longrightarrow> labels_ok (map (shown visible_area) ls)"
  by (induction ls) (auto simp: labels_ok_def shown_def)

lemma new_labels_ok: "new_labels rows = Inr ls \<Longrightarrow> labels_ok ls"
proof (induction rows arbitrary: ls)
  case Nil
  then show ?case by (simp add: labels_ok_def)
next
  case (Cons row rows)
  show ?case
  proof (cases "ladder_score row")
    case None
    with Cons show ?thesis by simp
  next
    case (Some score)
    show ?thesis
    proof (cases "row_geometry row")
      case None
      with Some Cons show ?thesis by simp
    next
      case g: (Some geometry)
      show ?thesis
      proof (cases "label_point geometry")
        case (Inl err)
        with Some g Cons.prems show ?thesis by simp
      next
        case (Inr pt)
        show ?thesis
        proof (cases pt)
          case None
          with Inr Some g Cons show ?thesis by simp
        next
          case p: (Some point)
          with Inr Some g Cons.prems obtain rest where rest: "new_labels rows = Inr rest"
            and ls: "ls = (\<lparr>text_position = point, text_visible = True\<rparr>, geometry) # rest"
            by (auto split: sum.splits)
          from Cons.IH [OF rest] Inr p show ?thesis
            by (simp add: ls labels_ok_def)
        qed
      qed
    qed
  qed
qed

lemma plot_labels_ok:
  assumes "plot_labels xlim ylim worldmap = Inr ls"
  shows "labels_ok ls"
proof -
  from assms obtain ls0 where ls0: "new_labels worldmap = Inr ls0"
    and upd: "update_labels xlim ylim ls0 = Inr ls"
    by (auto simp: plot_labels_def split: sum.splits)
  from new_labels_ok [OF ls0] have ok0: "labels_ok ls0" .
  from upd set_labels_map [OF ok0] labels_ok_shown [OF ok0] show ?thesis
    by (auto simp: update_labels_def Let_def)
qed

text \<open>
  C7. For the labels that \<^verbatim>\<open>plot_labels\<close> creates and any axis limits, the
  recomputation returns, keeps every label's geometry and anchor, and the anchor
  is the territory's representative point (for a multi-polygon, that of its
  largest part). After it a label is visible if and only if that point lies
  inside the viewport rectangle (not on its border) and the territory's area is
  greater than 0.0015 times the viewport's area.
\<close>

theorem update_labels_visibility:
  assumes "plot_labels xlim0 ylim0 worldmap = Inr visible_labels"
  shows "\<exists>labels'. update_labels xlim ylim visible_labels = Inr labels' \<and>
           length labels' = length visible_labels \<and>
           (\<forall>i < length visible_labels.
              snd (labels' ! i) = snd (visible_labels ! i) \<and>
              text_position (fst (labels' ! i)) = text_position (fst (visible_labels ! i)) \<and>
              label_point (snd (visible_labels ! i))
                = Inr (Some (text_position (fst (visible_labels ! i)))) \<and>
              (text_visible (fst (labels' ! i)) \<longleftrightarrow>
                 (min (fst xlim) (snd xlim) < fst (text_position (fst (visible_labels ! i))) \<and>
                  fst (text_position (fst (visible_labels ! i))) < max (fst xlim) (snd xlim) \<and>
                  min (fst ylim) (snd ylim) < snd (text_position (fst (visible_labels ! i))) \<and>
                  snd (text_position (fst (visible_labels ! i))) < max (fst ylim) (snd ylim)) \<and>
                 geometry_area (snd (visible_labels ! i))
                   > 0.0015 * (\<bar>snd xlim - fst xlim\<bar> * \<bar>snd ylim - fst ylim\<bar>)))"
proof -
  from plot_labels_ok [OF assms] have ok: "labels_ok visible_labels" .
  let ?box = "\<lparr>minx = fst xlim, miny = fst ylim, maxx = snd xlim, maxy = snd ylim\<rparr>"
  have upd: "update_labels xlim ylim visible_labels = Inr (map (shown ?box) visible_labels)"
    using set_labels_map [OF ok] by (simp add: update_labels_def)
  have pts: "label_point (snd (visible_labels ! i))
                = Inr (Some (text_position (fst (visible_labels ! i))))"
    if "i < length visible_labels" for i
    using ok that by (auto simp: labels_ok_def list_all_length split: prod.splits)
  show ?thesis
    unfolding upd
    by (simp add: shown_def box_contains_def box_area_def pts mult.commute)
qed


lemmas map_eval = plot_labels_def update_labels_def label_visible_def label_point_def
  example_territory_def example_world_def box_contains_def box_area_def geometry_area_def

theorem update_labels_visibility_witness:
  "plot_labels (-180, 180) (-90, 90) example_world
     = Inr [(\<lparr>text_position = (0, 0), text_visible = True\<rparr>, example_territory)] \<and>
   update_labels (5, 6) (5, 6) [(\<lparr>text_position = (0, 0), text_visible = True\<rparr>, example_territory)]
     = Inr [(\<lparr>text_position = (0, 0), text_visible = False\<rparr>, example_territory)] \<and>
   update_labels (-300, 300) (-150, 150)
       [(\<lparr>text_position = (0, 0), text_visible = True\<rparr>, example_territory)]
     = Inr [(\<lparr>text_position = (0, 0), text_visible = False\<rparr>, example_territory)] \<and>
   update_labels (-10, 10) (-10, 10)
       [(\<lparr>text_position = (0, 0), text_visible = True\<rparr>, example_territory)]
     = Inr [(\<lparr>text_position = (0, 0), text_visible = True\<rparr>, example_territory)]"
proof -
  let ?ls = "[(\<lparr>text_position = (0, 0), text_visible = True\<rparr>, example_territory)]"
  have plot: "plot_labels (-180, 180) (-90, 90) example_world = Inr ?ls"
    by (simp add: map_eval)
  from update_labels_visibility [OF plot, of "(5, 6)" "(5, 6)"]
  obtain l1 where l1: "update_labels (5, 6) (5, 6) ?ls = Inr l1" "length l1 = length ?ls"
    and v1: "\<forall>i < length ?ls.
              snd (l1 ! i) = snd (?ls ! i) \<and>
              text_position (fst (l1 ! i)) = text_position (fst (?ls ! i)) \<and>
              label_point (snd (?ls ! i)) = Inr (Some (text_position (fst (?ls ! i)))) \<and>
              (text_visible (fst (l1 ! i)) \<longleftrightarrow>
                 (min (fst (5::real, 6::real)) (snd (5::real, 6::real))
                     < fst (text_position (fst (?ls ! i))) \<and>
                  fst (text_position (fst (?ls ! i)))
                     < max (fst (5::real, 6::real)) (snd (5::real, 6::real)) \<and>
                  min (fst (5::real, 6::real)) (snd (5::real, 6::real))
                     < snd (text_position (fst (?ls ! i))) \<and>
                  snd (text_position (fst (?ls ! i)))
                     < max (fst (5::real, 6::real)) (snd (5::real, 6::real))) \<and>
                 geometry_area (snd (?ls ! i))
                   > 0.0015 * (\<bar>snd (5::real, 6::real) - fst (5::real, 6::real)\<bar> *
                               \<bar>snd (5::real, 6::real) - fst (5::real, 6::real)\<bar>))"
    by blast
  from v1 have "\<not> text_visible (fst (l1 ! 0))" by simp
  moreover have "update_labels (5, 6) (5, 6) ?ls
      = Inr [(\<lparr>text_position = (0, 0), text_visible = False\<rparr>, example_territory)]"
    by (simp add: map_eval)
  moreover have "update_labels (-300, 300) (-150, 150) ?ls
      = Inr [(\<lparr>text_position = (0, 0), text_visible = False\<rparr>, example_territory)]"
    by (simp add: map_eval)
  moreover have "update_labels (-10, 10) (-10, 10) ?ls = Inr ?ls"
    by (simp add: map_eval)
  ultimately show ?thesis using plot by simp
qed

text \<open>
  C8, as stated, fails. The example territory (area 100, label point (0, 0)) is
  labelled in the viewport from (-10, -10) to (10, 10). The viewport from (5, 5)
  to (6, 6) lies inside the first and has a smaller area, and the territory's
  area is above 0.15% of it, so the area threshold is not crossed; yet the
  label is hidden there, because its point is outside the viewport.
\<close>

theorem zoom_in_hides_label_counterexample:
  "label_visible \<lparr>minx = -10, miny = -10, maxx = 10, maxy = 10\<rparr> example_territory = Inr True \<and>
   box_area \<lparr>minx = 5, miny = 5, maxx = 6, maxy = 6\<rparr>
     < box_area \<lparr>minx = -10, miny = -10, maxx = 10, maxy = 10\<rparr> \<and>
   geometry_area example_territory > box_area \<lparr>minx = 5, miny = 5, maxx = 6, maxy = 6\<rparr> * 0.0015 \<and>
   label_visible \<lparr>minx = 5, miny = 5, maxx = 6, maxy = 6\<rparr> example_territory = Inr False"
  by (simp add: map_eval)

text \<open>
  C8, amended. For a fixed territory and two viewports of which the second has
  no larger area than the first: if the label is visible under the first and the
  territory's label point lies inside the second viewport, then the label is
  visible under the second. Zooming in never makes the area test fail; a label
  is hidden after zooming in only when its point leaves the viewport.
\<close>

theorem zoom_in_keeps_label:
  assumes "label_visible v1 g = Inr True"
    and "box_area v2 \<le> box_area v1"
    and "label_point g = Inr (Some p)"
    and "box_contains v2 p"
  shows "label_visible v2 g = Inr True"
proof -
  from assms(1,3) have "geometry_area g > box_area v1 * 0.0015"
    by (simp add: label_visible_def)
  with assms(2) have "geometry_area g > box_area v2 * 0.0015"
    by simp
  with assms(3,4) show ?thesis
    by (simp add: label_visible_def)
qed

theorem zoom_in_keeps_label_witness:
  "label_visible \<lparr>minx = -180, miny = -90, maxx = 180, maxy = 90\<rparr> example_territory = Inr True \<and>
   box_area \<lparr>minx = -10, miny = -10, maxx = 10, maxy = 10\<rparr>
     \<le> box_area \<lparr>minx = -180, miny = -90, maxx = 180, maxy = 90\<rparr> \<and>
   label_point example_territory = Inr (Some (0, 0)) \<and>
   box_contains \<lparr>minx = -10, miny = -10, maxx = 10, maxy = 10\<rparr> (0, 0) \<and>
   label_visible \<lparr>minx = -10, miny = -10, maxx = 10, maxy = 10\<rparr> example_territory = Inr True"
proof -
  have h1: "label_visible \<lparr>minx = -180, miny = -90, maxx = 180, maxy = 90\<rparr> example_territory
      = Inr True"
    by (simp add: map_eval)
  have h2: "box_area \<lparr>minx = -10, miny = -10, maxx = 10, maxy = 10\<rparr>
     \<le> box_area \<lparr>minx = -180, miny = -90, maxx = 180, maxy = 90\<rparr>"
    by (simp add: box_area_def)
  have h3: "label_point example_territory = Inr (Some (0, 0))"
    by (simp add: label_point_def example_territory_def)
  have h4: "box_contains \<lparr>minx = -10, miny = -10, maxx = 10, maxy = 10\<rparr> (0, 0)"
    by (simp add: box_contains_def)
  from zoom_in_keeps_label [OF h1 h2 h3 h4] h1 h2 h3 h4 show ?thesis by simp
qed

section \<open>Theorems: brush callback and linked selection\<close>

lemma update_colors_frame:
  "data (fst (update_colors b sel)) = data b"
  "selected (fst (update_colors b sel)) = selected b"
  "default_colors (fst (update_colors b sel)) = default_colors b"
  "sizes (fst (update_colors b sel)) = sizes b"
  by (simp_all add: update_colors_def)

lemma update_colors_total:
  assumes "brush_ok b"
  shows "update_colors b sel =
     (b\<lparr>colors := (if sel = [] then default_colors b
            else map (\<lambda>i. if i \<notin> set sel then gray else default_colors b ! i)
                   [0..<length (data b)])\<rparr>, None)"
  using assms
  by (auto simp: update_colors_def brush_ok_def list_ex_iff)

lemma fst_reraise:
  "fst (case p of (b, Some err) \<Rightarrow> (b, Some err) | (b, None) \<Rightarrow> (b, f b)) = fst p"
  by (cases p; cases "snd p") auto

lemma length_dropna: "length (dropna cols df) \<le> length df"
  by (simp add: dropna_def)

lemma length_coerce_column [simp]: "length (coerce_column parse a df) = length df"
  by (simp add: coerce_column_def)

lemma length_brushed: "length (brushed parse x_attr y_attr df) = length (dropna [x_attr, y_attr] df)"
  by (simp add: brushed_def)

lemma callback_state:
  fixes b parse draws eclick erelease x_attr y_attr
  defines "b' \<equiv> fst (callback parse draws b eclick erelease x_attr y_attr)"
  shows "data b' = brushed parse x_attr y_attr (data b)"
    and "selected b' =
           filter (\<lambda>i. between ((data b' ! i) x_attr) (min (fst eclick) (fst erelease))
                                  (max (fst eclick) (fst erelease)) \<and>
                        between ((data b' ! i) y_attr) (min (snd eclick) (snd erelease))
                                  (max (snd eclick) (snd erelease)))
             [0..<length (data b')]"
    and "default_colors b' = default_colors b"
    and "sizes b' = sizes b"
proof -
  show d: "data b' = brushed parse x_attr y_attr (data b)"
    unfolding b'_def callback_def Let_def fst_reraise
    by (simp add: update_colors_frame brushed_def)
  show "selected b' =
           filter (\<lambda>i. between ((data b' ! i) x_attr) (min (fst eclick) (fst erelease))
                                  (max (fst eclick) (fst erelease)) \<and>
                        between ((data b' ! i) y_attr) (min (snd eclick) (snd erelease))
                                  (max (snd eclick) (snd erelease)))
             [0..<length (data b')]"
    unfolding d unfolding b'_def callback_def Let_def fst_reraise
    by (simp add: update_colors_frame brushed_def)
  show "default_colors b' = default_colors b"
    unfolding b'_def callback_def Let_def fst_reraise
    by (simp add: update_colors_frame)
  show "sizes b' = sizes b"
    unfolding b'_def callback_def Let_def fst_reraise
    by (simp add: update_colors_frame)
qed

lemma callback_outcome:
  assumes "brush_ok b"
  shows "callback parse draws b eclick erelease x_attr y_attr =
     (let df = brushed parse x_attr y_attr (data b);
          sel = filter (\<lambda>i. between ((df ! i) x_attr) (min (fst eclick) (fst erelease))
                                  (max (fst eclick) (fst erelease)) \<and>
                             between ((df ! i) y_attr) (min (snd eclick) (snd erelease))
                                  (max (snd eclick) (snd erelease)))
                  [0..<length df];
          cs = (if sel = [] then default_colors b
                else map (\<lambda>i. if i \<notin> set sel then gray else default_colors b ! i)
                       [0..<length df])
      in (b\<lparr>data := df, selected := sel, colors := cs\<rparr>,
          scatter draws df x_attr y_attr (length cs) (length (sizes b))))"
proof -
  define df where "df = brushed parse x_attr y_attr (data b)"
  define sel where "sel = filter (\<lambda>i. between ((df ! i) x_attr) (min (fst eclick) (fst erelease))
                                  (max (fst eclick) (fst erelease)) \<and>
                             between ((df ! i) y_attr) (min (snd eclick) (snd erelease))
                                  (max (snd eclick) (snd erelease)))
                  [0..<length df]"
  have cb: "callback parse draws b eclick erelease x_attr y_attr =
      (case update_colors (b\<lparr>data := df, selected := sel\<rparr>) sel of
           (b, Some err) \<Rightarrow> (b, Some err)
         | (b, None) \<Rightarrow>
             (b, scatter draws (data b) x_attr y_attr (length (colors b)) (length (sizes b))))"
    unfolding callback_def Let_def df_def sel_def brushed_def by simp
  have "length df \<le> length (data b)"
    using length_dropna [of "[x_attr, y_attr]" "data b"] by (simp add: df_def brushed_def)
  with assms have ok: "brush_ok (b\<lparr>data := df, selected := sel\<rparr>)"
    by (simp add: brush_ok_def)
  show ?thesis
    unfolding cb update_colors_total [OF ok] Let_def df_def [symmetric] sel_def [symmetric]
    by simp
qed

lemma between_iff: "between c l r \<longleftrightarrow> (\<exists>v. c = Num v \<and> l \<le> v \<and> v \<le> r)"
  by (cases c) (simp_all add: between_def)

lemma to_numeric_reads_as: "to_numeric parse c = Num v \<longleftrightarrow> reads_as parse c v"
  by (cases c) (auto simp: to_numeric_def reads_as_def split: option.splits)

lemma to_numeric_idem: "to_numeric parse (to_numeric parse c) = to_numeric parse c"
  by (cases c) (auto simp: to_numeric_def split: option.splits)

lemma dropna_pair:
  "dropna [x_attr, y_attr] df = filter (\<lambda>r. r x_attr \<noteq> Null \<and> r y_attr \<noteq> Null) df"
  by (simp add: dropna_def)

lemma brushed_nth:
  assumes "i < length (dropna [x_attr, y_attr] df)"
  shows "(brushed parse x_attr y_attr df ! i) x_attr
           = to_numeric parse ((dropna [x_attr, y_attr] df ! i) x_attr)"
    and "(brushed parse x_attr y_attr df ! i) y_attr
           = to_numeric parse ((dropna [x_attr, y_attr] df ! i) y_attr)"
  using assms
  by (auto simp: brushed_def coerce_column_def to_numeric_idem)


text \<open>
  C1. For every brush, reading of text, drawing behaviour and pair of corner
  points: whether or not the drawing at the end of the callback raises, the
  callback leaves in \<^verbatim>\<open>self.data\<close> the rows that have no missing bound
  attribute, each bound cell being a number exactly when the original cell is
  that number or text that reads as it; and \<^verbatim>\<open>self.selected\<close> holds
  exactly the rows of that frame whose bound x value and bound y value are
  numbers inside the rectangle spanned by the corners, bounds included: an index
  is selected if and only if both values lie within the minimum and maximum of
  the corners on their axis. So every row that is not selected fails a bound on
  at least one axis.
\<close>

theorem callback_selects_rectangle:
  fixes b parse draws eclick erelease x_attr y_attr
  defines "b' \<equiv> fst (callback parse draws b eclick erelease x_attr y_attr)"
    and "kept \<equiv> filter (\<lambda>r. r x_attr \<noteq> Null \<and> r y_attr \<noteq> Null) (data b)"
  shows "length (data b') = length kept \<and>
         distinct (selected b') \<and>
         (\<forall>i < length kept. \<forall>v.
            ((data b' ! i) x_attr = Num v \<longleftrightarrow> reads_as parse ((kept ! i) x_attr) v) \<and>
            ((data b' ! i) y_attr = Num v \<longleftrightarrow> reads_as parse ((kept ! i) y_attr) v)) \<and>
         (\<forall>i. i \<in> set (selected b') \<longleftrightarrow>
              i < length kept \<and>
              (\<exists>vx vy. (data b' ! i) x_attr = Num vx \<and> (data b' ! i) y_attr = Num vy \<and>
                 min (fst eclick) (fst erelease) \<le> vx \<and> vx \<le> max (fst eclick) (fst erelease) \<and>
                 min (snd eclick) (snd erelease) \<le> vy \<and> vy \<le> max (snd eclick) (snd erelease)))"
proof -
  have kept: "kept = dropna [x_attr, y_attr] (data b)"
    by (simp add: kept_def dropna_pair)
  have d: "data b' = brushed parse x_attr y_attr (data b)"
    unfolding b'_def by (rule callback_state(1))
  have len: "length (data b') = length kept"
    by (simp add: d kept length_brushed)
  have sel: "selected b' =
           filter (\<lambda>i. between ((data b' ! i) x_attr) (min (fst eclick) (fst erelease))
                                  (max (fst eclick) (fst erelease)) \<and>
                        between ((data b' ! i) y_attr) (min (snd eclick) (snd erelease))
                                  (max (snd eclick) (snd erelease)))
             [0..<length (data b')]"
    unfolding b'_def by (rule callback_state(2))
  have dist: "distinct (selected b')"
    by (subst sel) simp
  have cells: "\<forall>i < length kept. \<forall>v.
            ((data b' ! i) x_attr = Num v \<longleftrightarrow> reads_as parse ((kept ! i) x_attr) v) \<and>
            ((data b' ! i) y_attr = Num v \<longleftrightarrow> reads_as parse ((kept ! i) y_attr) v)"
    by (simp add: d kept brushed_nth to_numeric_reads_as)
  have rect: "\<forall>i. i \<in> set (selected b') \<longleftrightarrow>
              i < length kept \<and>
              (\<exists>vx vy. (data b' ! i) x_attr = Num vx \<and> (data b' ! i) y_attr = Num vy \<and>
                 min (fst eclick) (fst erelease) \<le> vx \<and> vx \<le> max (fst eclick) (fst erelease) \<and>
                 min (snd eclick) (snd erelease) \<le> vy \<and> vy \<le> max (snd eclick) (snd erelease))"
    by (subst sel) (auto simp: between_iff len)
  from len dist cells rect show ?thesis by blast
qed


lemmas frame_defs = row_xy_def frame_null_def frame_plain_def chart_plain_def frame_dash_def
  frame_names_def parse_dash_def draws_all_def red_def green_def blue_def gray_def

lemmas brush_eval = selection_and_colors_def rows_and_colors_def callback_twice_def callback_def
  Let_def Brush_init_def update_colors_def dropna_def coerce_column_def to_numeric_def
  between_def brushed_def brush_ok_def scatter_def scatter_args_ok_def

theorem callback_selects_rectangle_witness:
  "selection_and_colors
     (fst (callback parse_dash draws_all (Brush_init frame_dash [red, blue] [50, 60])
             (10, 10) (0, 0) ''x'' ''y'')) = ([1], [gray, blue]) \<and>
   map (\<lambda>r. (r ''x'', r ''y''))
     (data (fst (callback parse_dash draws_all (Brush_init frame_dash [red, blue] [50, 60])
                   (10, 10) (0, 0) ''x'' ''y''))) = [(Null, Num 1), (Num 5, Num 1)] \<and>
   (1 \<in> set (selected (fst (callback parse_dash draws_all
                                (Brush_init frame_dash [red, blue] [50, 60])
                                (10, 10) (0, 0) ''x'' ''y'')))) \<and>
   reads_as parse_dash ((frame_dash ! 1) ''x'') 5 \<and>
   \<not> reads_as parse_dash ((frame_dash ! 0) ''x'') 5"
proof -
  let ?b = "Brush_init frame_dash [red, blue] [50, 60]"
  let ?b' = "fst (callback parse_dash draws_all ?b (10, 10) (0, 0) ''x'' ''y'')"
  note inst = callback_selects_rectangle [where b = ?b and parse = parse_dash
      and draws = draws_all and eclick = "(10, 10)" and erelease = "(0, 0)"
      and x_attr = "''x''" and y_attr = "''y''"]
  have kept: "filter (\<lambda>r. r ''x'' \<noteq> Null \<and> r ''y'' \<noteq> Null) (data ?b) = frame_dash"
    by (simp add: Brush_init_def frame_dash_def row_xy_def)
  from inst have len: "length (data ?b') = 2"
    by (simp add: kept) (simp add: frame_dash_def)
  from inst have cells: "\<forall>i < length frame_dash. \<forall>v.
            ((data ?b' ! i) ''x'' = Num v \<longleftrightarrow> reads_as parse_dash ((frame_dash ! i) ''x'') v) \<and>
            ((data ?b' ! i) ''y'' = Num v \<longleftrightarrow> reads_as parse_dash ((frame_dash ! i) ''y'') v)"
    by (simp add: kept)
  have r: "reads_as parse_dash ((frame_dash ! 1) ''x'') 5"
    "\<not> reads_as parse_dash ((frame_dash ! 0) ''x'') 5"
    "reads_as parse_dash ((frame_dash ! 1) ''y'') 1"
    by (simp_all add: reads_as_def frame_defs)
  from cells r have x1: "(data ?b' ! 1) ''x'' = Num 5" "(data ?b' ! 1) ''y'' = Num 1"
    by (simp_all add: frame_dash_def)
  from inst have "1 \<in> set (selected ?b') \<longleftrightarrow>
              1 < length frame_dash \<and>
              (\<exists>vx vy. (data ?b' ! 1) ''x'' = Num vx \<and> (data ?b' ! 1) ''y'' = Num vy \<and>
                 min (fst (10::real, 10::real)) (fst (0::real, 0::real)) \<le> vx \<and>
                 vx \<le> max (fst (10::real, 10::real)) (fst (0::real, 0::real)) \<and>
                 min (snd (10::real, 10::real)) (snd (0::real, 0::real)) \<le> vy \<and>
                 vy \<le> max (snd (10::real, 10::real)) (snd (0::real, 0::real)))"
    by (simp add: kept)
  with x1 have member: "1 \<in> set (selected ?b')"
    by (simp add: frame_dash_def)
  have eval: "selection_and_colors ?b' = ([1], [gray, blue])"
    "map (\<lambda>r. (r ''x'', r ''y'')) (data ?b') = [(Null, Num 1), (Num 5, Num 1)]"
    by (simp_all add: brush_eval frame_defs)
  from member eval r show ?thesis by simp
qed



lemma select_stops_when_callback_raises:
  assumes "snd (callback parse draws (brush1 v) eclick erelease (x_dropdown_1 v) (y_dropdown_1 v))
             = Some err"
  shows "select parse draws v eclick erelease 1 =
           (v\<lparr>brush1 := fst (callback parse draws (brush1 v) eclick erelease
                               (x_dropdown_1 v) (y_dropdown_1 v))\<rparr>, Some err)"
  using assms
  by (cases "callback parse draws (brush1 v) eclick erelease (x_dropdown_1 v) (y_dropdown_1 v)")
    (simp add: select_def Let_def)







text \<open>
  C3: the brush colour array against the row count, evaluated. With the name
  column of \<open>frame_names\<close> bound to x, the first callback coerces every name
  to \<^verbatim>\<open>NaN\<close> and the second drops every row; the selection is empty, so
  \<^verbatim>\<open>update_colors\<close> copies the two default colours: 0 rows, 2 colours, and
  the drawing that follows raises. With \<open>frame_null\<close>, one callback on a
  rectangle that matches nothing drops the row with the missing x: 2 rows, 3
  colours, and the drawing raises.
\<close>

theorem brush_colors_length_mismatch:
  "rows_and_colors
     (fst (callback_twice (\<lambda>t. None) draws_all (Brush_init frame_names [red, blue] [50, 60])
             (0, 0) (10, 10) ''x'' ''y'')) = (0, 2) \<and>
   snd (callback_twice (\<lambda>t. None) draws_all (Brush_init frame_names [red, blue] [50, 60])
          (0, 0) (10, 10) ''x'' ''y'') = Some ValueError \<and>
   rows_and_colors
     (fst (callback (\<lambda>t. None) draws_all (Brush_init frame_null [red, green, blue] [50, 60, 70])
             (10, 0) (30, 4) ''x'' ''y'')) = (2, 3) \<and>
   snd (callback (\<lambda>t. None) draws_all (Brush_init frame_null [red, green, blue] [50, 60, 70])
          (10, 0) (30, 4) ''x'' ''y'') = Some ValueError"
  by (simp add: brush_eval frame_defs)

text \<open>
  C5: the callback applied twice, evaluated. In \<open>frame_dash\<close> the bound column
  \<open>x\<close> is text: a dash in row 0 and \<open>5\<close> in row 1. The first callback keeps
  both rows (text is not missing), coerces the dash to \<^verbatim>\<open>NaN\<close>, selects
  index 1 and colours the rows gray, blue. The second callback, with the same
  rectangle, drops the row that now holds \<^verbatim>\<open>NaN\<close> and resets the index: it
  selects index 0, the colour array is the single colour red (the default colour
  of the dropped row), the two sizes no longer fit the one row, and the drawing
  raises.
\<close>

theorem callback_twice_differs_on_text:
  "selection_and_colors
     (fst (callback parse_dash draws_all (Brush_init frame_dash [red, blue] [50, 60])
             (0, 0) (10, 10) ''x'' ''y'')) = ([1], [gray, blue]) \<and>
   snd (callback parse_dash draws_all (Brush_init frame_dash [red, blue] [50, 60])
          (0, 0) (10, 10) ''x'' ''y'') = None \<and>
   selection_and_colors
     (fst (callback_twice parse_dash draws_all (Brush_init frame_dash [red, blue] [50, 60])
             (0, 0) (10, 10) ''x'' ''y'')) = ([0], [red]) \<and>
   rows_and_colors
     (fst (callback_twice parse_dash draws_all (Brush_init frame_dash [red, blue] [50, 60])
             (0, 0) (10, 10) ''x'' ''y'')) = (1, 1) \<and>
   snd (callback_twice parse_dash draws_all (Brush_init frame_dash [red, blue] [50, 60])
          (0, 0) (10, 10) ''x'' ''y'') = Some ValueError"
  by (simp add: brush_eval frame_defs)

lemma brushed_numeric:
  assumes "numeric_column parse x_attr df" "numeric_column parse y_attr df"
    and "r \<in> set (brushed parse x_attr y_attr df)"
  shows "(\<exists>v. r x_attr = Num v) \<and> (\<exists>v. r y_attr = Num v)"
proof -
  from assms(3) obtain r0 where r0: "r0 \<in> set df" "r0 x_attr \<noteq> Null" "r0 y_attr \<noteq> Null"
    and r: "r = (r0(x_attr := to_numeric parse (r0 x_attr)))
                  (y_attr := to_numeric parse ((r0(x_attr := to_numeric parse (r0 x_attr))) y_attr))"
    by (auto simp: brushed_def coerce_column_def dropna_def)
  have num: "\<exists>v. to_numeric parse (r0 a) = Num v"
    if "numeric_column parse a df" "r0 a \<noteq> Null" for a
  proof -
    from that(1) r0(1) have "case r0 a of Str t \<Rightarrow> parse t \<noteq> None | _ \<Rightarrow> True"
      by (simp add: numeric_column_def list_all_iff)
    with that(2) show ?thesis
      by (cases "r0 a") (auto simp: to_numeric_def)
  qed
  from num [OF assms(1) r0(2)] have x: "\<exists>v. to_numeric parse (r0 x_attr) = Num v" .
  from num [OF assms(2) r0(3)] have y: "\<exists>v. to_numeric parse (r0 y_attr) = Num v" .
  have idem: "to_numeric parse (Num v) = Num v" for v
    by (simp add: to_numeric_def)
  from x y show ?thesis
    unfolding r by (cases "x_attr = y_attr") (auto simp: idem)
qed

lemma brushed_fixed:
  assumes "\<forall>r \<in> set df. (\<exists>v. r x_attr = Num v) \<and> (\<exists>v. r y_attr = Num v)"
  shows "brushed parse x_attr y_attr df = df"
proof -
  have keep: "dropna [x_attr, y_attr] df = df"
    using assms by (auto simp: dropna_def intro!: filter_True)
  have same: "coerce_column parse a df = df"
    if "\<forall>r \<in> set df. \<exists>v. r a = Num v" for a
  proof -
    have "r(a := to_numeric parse (r a)) = r" if "r \<in> set df" for r
    proof -
      from \<open>\<forall>r \<in> set df. \<exists>v. r a = Num v\<close> that obtain v where "r a = Num v" by blast
      then have "to_numeric parse (r a) = r a" by (simp add: to_numeric_def)
      then show ?thesis by simp
    qed
    then show ?thesis
      by (simp add: coerce_column_def map_idI)
  qed
  from assms show ?thesis
    by (simp add: brushed_def keep same)
qed

text \<open>
  On bound columns in which coercion creates no \<^verbatim>\<open>NaN\<close> the second
  application repeats the first: same state, same exception if any.
\<close>

lemma callback_twice_same_when_numeric:
  assumes "brush_ok b"
    and "numeric_column parse x_attr (data b)" "numeric_column parse y_attr (data b)"
  shows "callback_twice parse draws b eclick erelease x_attr y_attr
           = callback parse draws b eclick erelease x_attr y_attr"
proof -
  let ?b1 = "fst (callback parse draws b eclick erelease x_attr y_attr)"
  note d1 = callback_state(1) [of parse draws b eclick erelease x_attr y_attr]
  note c1 = callback_state(3) [of parse draws b eclick erelease x_attr y_attr]
  note z1 = callback_state(4) [of parse draws b eclick erelease x_attr y_attr]
  have "length (data ?b1) \<le> length (data b)"
    using length_dropna [of "[x_attr, y_attr]" "data b"] by (simp add: d1 length_brushed)
  with assms(1) c1 have ok1: "brush_ok ?b1"
    by (simp add: brush_ok_def)
  have fixed: "brushed parse x_attr y_attr (data ?b1) = data ?b1"
    using brushed_numeric [OF assms(2,3)] by (intro brushed_fixed) (simp add: d1)
  have "callback parse draws ?b1 eclick erelease x_attr y_attr
      = callback parse draws b eclick erelease x_attr y_attr"
    unfolding callback_outcome [OF ok1] fixed c1 z1
    unfolding d1 callback_outcome [OF assms(1)] Let_def
    by simp
  then show ?thesis
    by (simp add: callback_twice_def)
qed

section \<open>Theorems: size legends\<close>

lemmas legend_eval = add_dynamic_size_legend_def add_size_legend_def size_values_def
  size_markers_def size_marker_def linspace3_def Let_def

lemma series_min_Min: "size_data \<noteq> [] \<Longrightarrow> series_min size_data = Some (Min (set size_data))"
  by (cases size_data) (simp_all add: Min.set_eq_fold [symmetric])

lemma series_max_Max: "size_data \<noteq> [] \<Longrightarrow> series_max size_data = Some (Max (set size_data))"
  by (cases size_data) (simp_all add: Max.set_eq_fold [symmetric])

lemma non_constant_range:
  fixes size_data :: "real list"
  assumes "a \<in> set size_data" "b \<in> set size_data" "a \<noteq> b"
  shows "Min (set size_data) < Max (set size_data)"
proof -
  have "Min (set size_data) \<le> a" "Min (set size_data) \<le> b"
    "a \<le> Max (set size_data)" "b \<le> Max (set size_data)"
    using assms(1,2) by simp_all
  with assms(3) show ?thesis by linarith
qed

lemma legend_min_mid_max:
  assumes "a \<in> set size_data" "b \<in> set size_data" "a \<noteq> b"
  shows "map label_val (add_dynamic_size_legend size_data scale_factor) =
           [Some (Min (set size_data)),
            Some ((Min (set size_data) + Max (set size_data)) / 2),
            Some (Max (set size_data))] \<and>
         map markersize (add_dynamic_size_legend size_data scale_factor) =
           [Some (sqrt (50 * (scale_factor / 50))),
            Some (sqrt (525 * (scale_factor / 50))),
            Some (sqrt (1000 * (scale_factor / 50)))] \<and>
         add_size_legend size_data scale_factor =
           [(0, Some (50 * (scale_factor / 50))),
            (1.2, Some (525 * (scale_factor / 50))),
            (2.4, Some (1000 * (scale_factor / 50)))]"
proof -
  let ?lo = "Min (set size_data)" and ?hi = "Max (set size_data)"
  from assms(1) have ne: "size_data \<noteq> []" by auto
  from non_constant_range [OF assms] have range: "?hi - ?lo \<noteq> 0" by simp
  have vals: "size_values size_data = [Some ?lo, Some ((?lo + ?hi) / 2), Some ?hi]"
    by (simp add: size_values_def linspace3_def series_min_Min [OF ne] series_max_Max [OF ne]
        field_simps)
  have mid: "((?lo + ?hi) / 2 - ?lo) / (?hi - ?lo) = 1 / 2"
    using range by (simp add: field_simps)
  have marker: "size_marker (Some ?lo) (Some ?hi) scale_factor (Some v)
      = Some ((50 + ((v - ?lo) / (?hi - ?lo)) * 950) * (scale_factor / 50))" for v
    using range by (simp add: size_marker_def)
  have ends: "(?lo - ?lo) / (?hi - ?lo) = 0" "(?hi - ?lo) / (?hi - ?lo) = 1"
    using range by simp_all
  have m: "size_marker (Some ?lo) (Some ?hi) scale_factor (Some ?lo)
      = Some (50 * (scale_factor / 50))"
    "size_marker (Some ?lo) (Some ?hi) scale_factor (Some ((?lo + ?hi) / 2))
      = Some (525 * (scale_factor / 50))"
    "size_marker (Some ?lo) (Some ?hi) scale_factor (Some ?hi)
      = Some (1000 * (scale_factor / 50))"
    unfolding marker mid ends by simp_all
  have marks: "size_markers size_data scale_factor =
      [Some (50 * (scale_factor / 50)), Some (525 * (scale_factor / 50)),
       Some (1000 * (scale_factor / 50))]"
    unfolding size_markers_def vals series_min_Min [OF ne] series_max_Max [OF ne]
    by (simp add: m)
  show ?thesis
    unfolding add_dynamic_size_legend_def add_size_legend_def vals marks
    by (simp add: numeral_3_eq_3)
qed


lemma non_constantD:
  assumes "non_constant xs"
  obtains a b where "a \<in> set xs" "b \<in> set xs" "a \<noteq> b"
  using assms by (auto simp: non_constant_def list_ex_iff)

lemma length_factorize [simp]: "length (factorize col) = length col"
  by (simp add: factorize_def Let_def)

lemma size_data_other_column:
  assumes "size_attr \<noteq> color_attr \<or> is_numeric_dtype (map (\<lambda>r. r color_attr) df)"
  shows "update_graph_size_data parse df color_attr size_attr =
           map (\<lambda>r. case r size_attr of
                       Null \<Rightarrow> 1
                     | Num v \<Rightarrow> max v 0
                     | Str t \<Rightarrow> (case parse t of None \<Rightarrow> 1 | Some v \<Rightarrow> max v 0)) df"
proof (rule nth_equalityI)
  let ?col = "map (\<lambda>r. r color_attr) df"
  let ?df' = "if \<not> is_numeric_dtype ?col
              then map (\<lambda>(r, c). r(color_attr := c)) (zip df (factorize ?col)) else df"
  have len: "length ?df' = length df" by simp
  show "length (update_graph_size_data parse df color_attr size_attr) =
      length (map (\<lambda>r. case r size_attr of
                       Null \<Rightarrow> 1
                     | Num v \<Rightarrow> max v 0
                     | Str t \<Rightarrow> (case parse t of None \<Rightarrow> 1 | Some v \<Rightarrow> max v 0)) df)"
    by (simp add: update_graph_size_data_def Let_def)
  fix i assume "i < length (update_graph_size_data parse df color_attr size_attr)"
  then have i: "i < length df"
    by (simp add: update_graph_size_data_def Let_def split: if_splits)
  have cell: "max (case to_numeric parse c of Num v \<Rightarrow> v | _ \<Rightarrow> 1) 0 =
      (case c of Null \<Rightarrow> 1 | Num v \<Rightarrow> max v 0
       | Str t \<Rightarrow> (case parse t of None \<Rightarrow> 1 | Some v \<Rightarrow> max v 0))" for c
    by (cases c) (auto simp: to_numeric_def split: option.splits)
  from i assms have same: "(?df' ! i) size_attr = (df ! i) size_attr"
    by auto
  have "update_graph_size_data parse df color_attr size_attr ! i =
      max (case to_numeric parse ((?df' ! i) size_attr) of Num v \<Rightarrow> v | _ \<Rightarrow> 1) 0"
    using i len by (simp add: update_graph_size_data_def Let_def)
  also have "\<dots> = (case (df ! i) size_attr of Null \<Rightarrow> 1 | Num v \<Rightarrow> max v 0
       | Str t \<Rightarrow> (case parse t of None \<Rightarrow> 1 | Some v \<Rightarrow> max v 0))"
    unfolding same by (rule cell)
  finally show "update_graph_size_data parse df color_attr size_attr ! i =
      map (\<lambda>r. case r size_attr of
                       Null \<Rightarrow> 1
                     | Num v \<Rightarrow> max v 0
                     | Str t \<Rightarrow> (case parse t of None \<Rightarrow> 1 | Some v \<Rightarrow> max v 0)) df ! i"
    using i by simp
qed


lemma toggle_size_data:
  "toggle_legend_size_data parse df size_attr =
     map (\<lambda>r. case r size_attr of
                 Null \<Rightarrow> 1
               | Num v \<Rightarrow> max v 0
               | Str t \<Rightarrow> (case parse t of None \<Rightarrow> 1 | Some v \<Rightarrow> max v 0)) df"
proof -
  have cell: "max (case to_numeric parse c of Num v \<Rightarrow> v | _ \<Rightarrow> 1) 0 =
      (case c of Null \<Rightarrow> 1 | Num v \<Rightarrow> max v 0
       | Str t \<Rightarrow> (case parse t of None \<Rightarrow> 1 | Some v \<Rightarrow> max v 0))" for c
    by (cases c) (auto simp: to_numeric_def split: option.splits)
  show ?thesis
    by (simp add: toggle_legend_size_data_def Let_def cell)
qed

lemma size_values_min_mid_max:
  fixes size_data :: "real list"
  assumes "size_data \<noteq> []"
  shows "size_values size_data =
           [Some (Min (set size_data)),
            Some ((Min (set size_data) + Max (set size_data)) / 2),
            Some (Max (set size_data))]"
  by (simp add: size_values_def linspace3_def series_min_Min [OF assms] series_max_Max [OF assms]
      field_simps)

lemma numbers_all:
  "list_all (\<lambda>c. case c of Num v \<Rightarrow> True | _ \<Rightarrow> False) cs \<Longrightarrow> map Num (numbers cs) = cs"
  by (induction cs rule: numbers.induct) simp_all

text \<open>
  C9, as stated, fails. On a render pass of the brushing view over a size
  column 0, 0, 10 the three legend values are 0, 5 and 10: the middle one is the
  midpoint of the range, while the median of the size data is 0. The bubble
  view's legend takes the same three values from such a population column.
\<close>

theorem size_legend_median_counterexample:
  "update_graph_size_data parse_dash frame_sizes ''y'' ''s'' = [0, 0, 10] \<and>
   map_option (map label_val) (update_graph_legend True parse_dash frame_sizes ''y'' ''s'' 50)
     = Some [Some 0, Some 5, Some 10] \<and>
   median_spec (update_graph_size_data parse_dash frame_sizes ''y'' ''s'') = 0 \<and>
   update_data_size_data frame_pop = [0, 0, 10] \<and>
   size_values (update_data_size_data frame_pop) = [Some 0, Some 5, Some 10] \<and>
   median_spec (update_data_size_data frame_pop) = 0"
  by (simp add: update_graph_legend_def update_graph_size_data_def update_data_size_data_def
      is_numeric_dtype_def to_numeric_def frame_sizes_def frame_pop_def row_s_def legend_eval
      median_spec_def numeral_3_eq_3)

text \<open>
  C9, amended. The size data of a render pass is, in the brushing view, the size
  column with each number below 0 raised to 0 and each gap or text that reads as
  no number replaced by 1 (when the size column is also the colour column and
  holds text, its factor codes are taken instead), and the same when a legend
  is switched back on; in the bubble view it is the population column. Whenever that size data is not constant, the legend
  consists of exactly three markers, for the minimum of the size data, the
  midpoint of its range (minimum plus maximum, halved) and its maximum. Their
  areas are 50, 525 and 1000 times \<open>scale_factor / 50\<close>; the brushing view's
  legend labels its handles with the three values and sizes them by the square
  roots of the areas, the bubble view's legend places its markers at 0, 1.2 and
  2.4 with scale factor 100. With the legend switched off the brushing view
  builds none.
\<close>

theorem size_legend_min_mid_max:
  fixes parse df color_attr size_attr scale_factor pop
  defines "sd \<equiv> update_graph_size_data parse df color_attr size_attr"
    and "td \<equiv> toggle_legend_size_data parse df size_attr"
    and "pd \<equiv> update_data_size_data pop"
  shows "(size_attr \<noteq> color_attr \<or> is_numeric_dtype (map (\<lambda>r. r color_attr) df) \<longrightarrow>
            sd = map (\<lambda>r. case r size_attr of
                             Null \<Rightarrow> 1
                           | Num v \<Rightarrow> max v 0
                           | Str t \<Rightarrow> (case parse t of None \<Rightarrow> 1 | Some v \<Rightarrow> max v 0)) df) \<and>
         (non_constant sd \<longrightarrow>
            map_option (map label_val)
              (update_graph_legend True parse df color_attr size_attr scale_factor) =
              Some [Some (Min (set sd)), Some ((Min (set sd) + Max (set sd)) / 2),
                    Some (Max (set sd))] \<and>
            map_option (map markersize)
              (update_graph_legend True parse df color_attr size_attr scale_factor) =
              Some [Some (sqrt (50 * (real_of_int scale_factor / 50))),
                    Some (sqrt (525 * (real_of_int scale_factor / 50))),
                    Some (sqrt (1000 * (real_of_int scale_factor / 50)))]) \<and>
         update_graph_legend False parse df color_attr size_attr scale_factor = None \<and>
         td = map (\<lambda>r. case r size_attr of
                           Null \<Rightarrow> 1
                         | Num v \<Rightarrow> max v 0
                         | Str t \<Rightarrow> (case parse t of None \<Rightarrow> 1 | Some v \<Rightarrow> max v 0)) df \<and>
         (non_constant td \<longrightarrow>
            map_option (map label_val)
              (snd (toggle_legend False parse df size_attr scale_factor)) =
              Some [Some (Min (set td)), Some ((Min (set td) + Max (set td)) / 2),
                    Some (Max (set td))]) \<and>
         (list_all (\<lambda>r. case r ''pop_est'' of Num v \<Rightarrow> True | _ \<Rightarrow> False) pop \<longrightarrow>
            map Num pd = map (\<lambda>r. r ''pop_est'') pop) \<and>
         (non_constant pd \<longrightarrow>
            size_values pd =
              [Some (Min (set pd)), Some ((Min (set pd) + Max (set pd)) / 2), Some (Max (set pd))] \<and>
            update_data_legend pop =
              [(0, Some (50 * (100 / 50))), (1.2, Some (525 * (100 / 50))),
               (2.4, Some (1000 * (100 / 50)))])"
proof (intro conjI impI)
  assume "size_attr \<noteq> color_attr \<or> is_numeric_dtype (map (\<lambda>r. r color_attr) df)"
  then show "sd = map (\<lambda>r. case r size_attr of
                             Null \<Rightarrow> 1
                           | Num v \<Rightarrow> max v 0
                           | Str t \<Rightarrow> (case parse t of None \<Rightarrow> 1 | Some v \<Rightarrow> max v 0)) df"
    unfolding sd_def by (rule size_data_other_column)
next
  assume "non_constant sd"
  then obtain a b where ab: "a \<in> set sd" "b \<in> set sd" "a \<noteq> b"
    by (rule non_constantD)
  from legend_min_mid_max [OF ab, of "real_of_int scale_factor"]
  show "map_option (map label_val)
              (update_graph_legend True parse df color_attr size_attr scale_factor) =
              Some [Some (Min (set sd)), Some ((Min (set sd) + Max (set sd)) / 2),
                    Some (Max (set sd))]"
    and "map_option (map markersize)
              (update_graph_legend True parse df color_attr size_attr scale_factor) =
              Some [Some (sqrt (50 * (real_of_int scale_factor / 50))),
                    Some (sqrt (525 * (real_of_int scale_factor / 50))),
                    Some (sqrt (1000 * (real_of_int scale_factor / 50)))]"
    by (simp_all add: update_graph_legend_def sd_def [symmetric])
next
  show "update_graph_legend False parse df color_attr size_attr scale_factor = None"
    by (simp add: update_graph_legend_def)
next
  show "td = map (\<lambda>r. case r size_attr of
                           Null \<Rightarrow> 1
                         | Num v \<Rightarrow> max v 0
                         | Str t \<Rightarrow> (case parse t of None \<Rightarrow> 1 | Some v \<Rightarrow> max v 0)) df"
    unfolding td_def by (rule toggle_size_data)
next
  assume "non_constant td"
  then obtain a b where ab: "a \<in> set td" "b \<in> set td" "a \<noteq> b"
    by (rule non_constantD)
  from legend_min_mid_max [OF ab, of "real_of_int scale_factor"]
  show "map_option (map label_val)
              (snd (toggle_legend False parse df size_attr scale_factor)) =
              Some [Some (Min (set td)), Some ((Min (set td) + Max (set td)) / 2),
                    Some (Max (set td))]"
    by (simp add: toggle_legend_def td_def [symmetric])
next
  assume "list_all (\<lambda>r. case r ''pop_est'' of Num v \<Rightarrow> True | _ \<Rightarrow> False) pop"
  then have "list_all (\<lambda>c. case c of Num v \<Rightarrow> True | _ \<Rightarrow> False) (map (\<lambda>r. r ''pop_est'') pop)"
    by (simp add: list_all_iff)
  then show "map Num pd = map (\<lambda>r. r ''pop_est'') pop"
    unfolding pd_def update_data_size_data_def by (rule numbers_all)
next
  assume "non_constant pd"
  then obtain a b where ab: "a \<in> set pd" "b \<in> set pd" "a \<noteq> b"
    by (rule non_constantD)
  then have ne: "pd \<noteq> []" by auto
  show "size_values pd =
      [Some (Min (set pd)), Some ((Min (set pd) + Max (set pd)) / 2), Some (Max (set pd))]"
    by (rule size_values_min_mid_max [OF ne])
  from legend_min_mid_max [OF ab, of 100]
  show "update_data_legend pop =
              [(0, Some (50 * (100 / 50))), (1.2, Some (525 * (100 / 50))),
               (2.4, Some (1000 * (100 / 50)))]"
    by (simp add: update_data_legend_def pd_def [symmetric])
qed


lemmas size_data_eval = update_graph_size_data_def update_data_size_data_def is_numeric_dtype_def
  factorize_def to_numeric_def parse_dash_def frame_sizes_def frame_sizes_mixed_def
  frame_sizes_negative_def frame_pop_def row_s_def Let_def non_constant_def

theorem size_legend_min_mid_max_witness:
  "update_graph_size_data parse_dash frame_sizes_negative ''y'' ''s'' = [0, 4, 10] \<and>
   map_option (map label_val)
     (update_graph_legend True parse_dash frame_sizes_negative ''y'' ''s'' 50)
     = Some [Some 0, Some 5, Some 10] \<and>
   map_option (map markersize)
     (update_graph_legend True parse_dash frame_sizes_negative ''y'' ''s'' 50)
     = Some [Some (sqrt 50), Some (sqrt 525), Some (sqrt 1000)] \<and>
   update_graph_size_data parse_dash frame_sizes_mixed ''y'' ''s'' = [1, 5] \<and>
   map_option (map label_val)
     (update_graph_legend True parse_dash frame_sizes_mixed ''y'' ''s'' 50)
     = Some [Some 1, Some 3, Some 5] \<and>
   update_graph_size_data parse_dash frame_sizes_mixed ''s'' ''s'' = [0, 1] \<and>
   update_data_size_data frame_pop = [0, 0, 10] \<and>
   update_data_legend frame_pop = [(0, Some 100), (1.2, Some 1050), (2.4, Some 2000)]"
proof -
  have neg: "update_graph_size_data parse_dash frame_sizes_negative ''y'' ''s'' = [0, 4, 10]"
    and mixed: "update_graph_size_data parse_dash frame_sizes_mixed ''y'' ''s'' = [1, 5]"
    and codes: "update_graph_size_data parse_dash frame_sizes_mixed ''s'' ''s'' = [0, 1]"
    and pop: "update_data_size_data frame_pop = [0, 0, 10]"
    by (simp_all add: size_data_eval)
  have nc: "non_constant [0, 4, 10 :: real]" "non_constant [1, 5 :: real]"
    "non_constant [0, 0, 10 :: real]"
    by (simp_all add: non_constant_def)
  note inst1 = size_legend_min_mid_max [where parse = parse_dash and df = frame_sizes_negative
      and color_attr = "''y''" and size_attr = "''s''" and scale_factor = 50 and pop = frame_pop]
  note inst2 = size_legend_min_mid_max [where parse = parse_dash and df = frame_sizes_mixed
      and color_attr = "''y''" and size_attr = "''s''" and scale_factor = 50 and pop = frame_pop]
  from inst1 nc have
    "map_option (map label_val)
       (update_graph_legend True parse_dash frame_sizes_negative ''y'' ''s'' 50)
       = Some [Some 0, Some 5, Some 10]"
    "map_option (map markersize)
       (update_graph_legend True parse_dash frame_sizes_negative ''y'' ''s'' 50)
       = Some [Some (sqrt 50), Some (sqrt 525), Some (sqrt 1000)]"
    "update_data_legend frame_pop = [(0, Some 100), (1.2, Some 1050), (2.4, Some 2000)]"
    by (simp_all add: neg pop)
  moreover from inst2 nc have
    "map_option (map label_val)
       (update_graph_legend True parse_dash frame_sizes_mixed ''y'' ''s'' 50)
       = Some [Some 1, Some 3, Some 5]"
    by (simp add: mixed)
  ultimately show ?thesis
    using neg mixed codes pop by simp
qed

end
